theory Spec2Isabelle
  imports Complex_Main
begin

section \<open>JavaScript values used by the two pie widgets\<close>

text \<open>
  Both widgets compute with JavaScript numbers, which are IEEE 754 binary64 values. A
  number is modelled as one of the three special values or as the rational it stands for;
  the arithmetic operators compute the exact result and round it to binary64, to the
  nearest value with ties to the even significand, as the language standard prescribes.
  The sign of a zero is not modelled: the only divisor that can be zero in the widgets is
  the \<open>total\<close> computed by \<open>reduce\<close> from the initial value \<open>0\<close>, a sum that starts at
  \<open>+0\<close> is never \<open>-0\<close>, and no other operation of the widgets tells the two zeros apart.
\<close>

datatype jsnum = NaN | PosInf | NegInf | Fin rat

datatype js_error = TypeError

subsection \<open>Rounding to binary64\<close>

text \<open>The number of binary digits of a positive integer.\<close>

function bits :: "int \<Rightarrow> nat" where
  "bits k = (if k \<le> 0 then 0 else Suc (bits (k div 2)))"
  by pat_completeness auto
termination
  by (relation "measure nat") auto

declare bits.simps [simp del]

text \<open>For a positive rational \<open>a\<close>, the integer \<open>e\<close> with \<open>2^e \<le> a < 2^(e+1)\<close>.\<close>

definition ilog2 :: "rat \<Rightarrow> int" where
  "ilog2 a =
     (if 1 \<le> a then int (bits \<lfloor>a\<rfloor>) - 1
      else - int (bits (\<lceil>1 / a\<rceil> - 1)))"

text \<open>The nearest integer, a tie going to the even one.\<close>

definition round_even :: "rat \<Rightarrow> int" where
  "round_even x =
     (let f = \<lfloor>x\<rfloor>; r = x - of_int f
      in if r < 1 / 2 then f else if 1 / 2 < r then f + 1 else if even f then f else f + 1)"

text \<open>
  A positive rational rounded to 53 significant binary digits, or to a multiple of
  \<open>2^-1074\<close> below the smallest normal number \<open>2^-1022\<close>; the exponent is not bounded
  above here.
\<close>

definition rnd_pos :: "rat \<Rightarrow> rat" where
  "rnd_pos a =
     (let e = max (- 1022) (ilog2 a); u = 2 powi (e - 52)
      in of_int (round_even (a / u)) * u)"

text \<open>The exponent \<open>rnd_pos\<close> rounds at.\<close>

definition expo :: "rat \<Rightarrow> int" where
  "expo a = max (- 1022) (ilog2 a)"

text \<open>The binary64 value of an exact result: a rounded magnitude of \<open>2^1024\<close> or more
  overflows to an infinity.\<close>

definition fl :: "rat \<Rightarrow> jsnum" where
  "fl q =
     (if q = 0 then Fin 0
      else let m = rnd_pos \<bar>q\<bar>
           in if 1024 \<le> ilog2 m then (if 0 < q then PosInf else NegInf)
              else Fin (if 0 < q then m else - m))"

text \<open>The rationals that are binary64 values: rounding leaves them as they are. The
  numbers a widget receives are of this kind.\<close>

definition is_double :: "rat \<Rightarrow> bool" where
  "is_double q \<longleftrightarrow> fl q = Fin q"

subsection \<open>The operators\<close>

fun js_add :: "jsnum \<Rightarrow> jsnum \<Rightarrow> jsnum" where
  "js_add NaN _ = NaN"
| "js_add _ NaN = NaN"
| "js_add PosInf NegInf = NaN"
| "js_add NegInf PosInf = NaN"
| "js_add PosInf _ = PosInf"
| "js_add _ PosInf = PosInf"
| "js_add NegInf _ = NegInf"
| "js_add _ NegInf = NegInf"
| "js_add (Fin a) (Fin b) = fl (a + b)"

fun js_neg :: "jsnum \<Rightarrow> jsnum" where
  "js_neg NaN = NaN"
| "js_neg PosInf = NegInf"
| "js_neg NegInf = PosInf"
| "js_neg (Fin a) = Fin (- a)"

definition js_sub :: "jsnum \<Rightarrow> jsnum \<Rightarrow> jsnum" where
  "js_sub x y = js_add x (js_neg y)"

fun js_mul :: "jsnum \<Rightarrow> jsnum \<Rightarrow> jsnum" where
  "js_mul NaN _ = NaN"
| "js_mul _ NaN = NaN"
| "js_mul PosInf PosInf = PosInf"
| "js_mul PosInf NegInf = NegInf"
| "js_mul NegInf PosInf = NegInf"
| "js_mul NegInf NegInf = PosInf"
| "js_mul PosInf (Fin b) = (if b = 0 then NaN else if 0 < b then PosInf else NegInf)"
| "js_mul NegInf (Fin b) = (if b = 0 then NaN else if 0 < b then NegInf else PosInf)"
| "js_mul (Fin a) PosInf = (if a = 0 then NaN else if 0 < a then PosInf else NegInf)"
| "js_mul (Fin a) NegInf = (if a = 0 then NaN else if 0 < a then NegInf else PosInf)"
| "js_mul (Fin a) (Fin b) = fl (a * b)"

text \<open>Division: a zero divisor is \<open>+0\<close>, so \<open>0/0\<close> is \<open>NaN\<close> and \<open>a/0\<close> is an
  infinity with the sign of \<open>a\<close>.\<close>

fun js_div :: "jsnum \<Rightarrow> jsnum \<Rightarrow> jsnum" where
  "js_div NaN _ = NaN"
| "js_div _ NaN = NaN"
| "js_div PosInf PosInf = NaN"
| "js_div PosInf NegInf = NaN"
| "js_div NegInf PosInf = NaN"
| "js_div NegInf NegInf = NaN"
| "js_div PosInf (Fin b) = (if b < 0 then NegInf else PosInf)"
| "js_div NegInf (Fin b) = (if b < 0 then PosInf else NegInf)"
| "js_div (Fin a) PosInf = Fin 0"
| "js_div (Fin a) NegInf = Fin 0"
| "js_div (Fin a) (Fin b) =
     (if b = 0 then (if a = 0 then NaN else if 0 < a then PosInf else NegInf)
      else fl (a / b))"

text \<open>\<open>Math.round\<close> gives the nearest integer, a half going towards \<open>+\<infinity>\<close>. The result
  is exact: an integer nearest to a binary64 value is a binary64 value.\<close>

fun Math_round :: "jsnum \<Rightarrow> jsnum" where
  "Math_round (Fin a) = Fin (of_int \<lfloor>a + 1 / 2\<rfloor>)"
| "Math_round x = x"

fun Math_min :: "jsnum \<Rightarrow> jsnum \<Rightarrow> jsnum" where
  "Math_min NaN _ = NaN"
| "Math_min _ NaN = NaN"
| "Math_min NegInf _ = NegInf"
| "Math_min _ NegInf = NegInf"
| "Math_min PosInf y = y"
| "Math_min x PosInf = x"
| "Math_min (Fin a) (Fin b) = Fin (min a b)"

text \<open>The comparison \<open>x >= y\<close>: false as soon as one side is \<open>NaN\<close>.\<close>

fun js_ge :: "jsnum \<Rightarrow> jsnum \<Rightarrow> bool" where
  "js_ge NaN _ = False"
| "js_ge _ NaN = False"
| "js_ge PosInf _ = True"
| "js_ge _ NegInf = True"
| "js_ge NegInf _ = False"
| "js_ge _ PosInf = False"
| "js_ge (Fin a) (Fin b) = (b \<le> a)"

subsection \<open>Numbers as text\<close>

fun dec :: "nat \<Rightarrow> string" where
  "dec n = (if n < 10 then [''0123456789'' ! n]
            else dec (n div 10) @ [''0123456789'' ! (n mod 10)])"

fun hex :: "nat \<Rightarrow> string" where
  "hex n = (if n < 16 then [''0123456789abcdef'' ! n]
            else hex (n div 16) @ [''0123456789abcdef'' ! (n mod 16)])"

text \<open>Both equations recurse under a condition on a variable: they are unfolded on
  demand only.\<close>

declare dec.simps [simp del] hex.simps [simp del]

definition padStart :: "nat \<Rightarrow> char \<Rightarrow> string \<Rightarrow> string" where
  "padStart n c s = replicate (n - length s) c @ s"

text \<open>
  \<open>js_to_string\<close> is the conversion a template literal applies to a number. An integer
  below \<open>2^53\<close> in magnitude prints as its decimal digits. The text of any other finite
  number (a fraction, the shortest digits that identify a larger integer, or an exponent
  notation) is fixed by the language standard, not by this repository: it is the
  parameter \<open>other\<close>.
\<close>

definition js_to_string :: "(rat \<Rightarrow> string) \<Rightarrow> jsnum \<Rightarrow> string" where
  "js_to_string other x =
     (case x of
        NaN \<Rightarrow> ''NaN''
      | PosInf \<Rightarrow> ''Infinity''
      | NegInf \<Rightarrow> ''-Infinity''
      | Fin a \<Rightarrow>
          if of_int \<lfloor>a\<rfloor> = a \<and> \<bar>a\<bar> < 2 ^ 53
          then (if a < 0 then ''-'' else '''') @ dec (nat \<bar>\<lfloor>a\<rfloor>\<bar>)
          else other a)"

text \<open>Reading an array out of range gives \<open>undefined\<close>, here \<open>None\<close>.\<close>

definition at_index :: "'a list \<Rightarrow> nat \<Rightarrow> 'a option" where
  "at_index xs i = (if i < length xs then Some (xs ! i) else None)"

section \<open>The data model\<close>

text \<open>A slice \<open>{ label: string, value: number, color?: string }\<close>.\<close>

record slice =
  label :: string
  value_num :: jsnum
  color :: "string option"

section \<open>The Canvas widget: configuration\<close>

record dataset =
  ds_data :: "jsnum list"
  backgroundColor :: "string list"
  hoverOffset :: nat
  borderWidth :: nat
  borderColor :: string

record chart_data =
  labels :: "string list"
  datasets :: "dataset list"

text \<open>
  The options. The three callbacks of the source (tooltip label, datalabels formatter and
  datalabels display) are closures over \<open>labelFormat\<close> and \<open>showInlineLabels\<close> as they
  were when the configuration was built: the options keep the two captured values, and
  the callbacks are the functions \<open>tooltip_label\<close>, \<open>formatter\<close> and \<open>display\<close> below.
\<close>

record chart_options =
  responsive :: bool
  maintainAspectRatio :: bool
  legend_display :: bool
  legend_position :: string
  title_display :: bool
  title_text :: string
  captured_labelFormat :: string
  captured_showInlineLabels :: bool
  animation_duration :: nat
  animation_easing :: string

record chart_config =
  cfg_type :: string
  cfg_data :: chart_data
  cfg_options :: chart_options

record canvas_inputs =
  data :: "slice list"
  width :: jsnum
  height :: jsnum
  title :: string
  showLegend :: bool
  showInlineLabels :: bool
  labelFormat :: string

text \<open>
  \<open>getRandomColor\<close>: \<open>'#' + Math.floor(Math.random() * 16777215).toString(16).padStart(6, '0')\<close>.
  The argument is the floored product of one draw.
\<close>

definition getRandomColor :: "nat \<Rightarrow> string" where
  "getRandomColor r = CHR ''#'' # padStart 6 (CHR ''0'') (hex r)"

text \<open>
  \<open>data.map(item => item.color || this.getRandomColor())\<close>. The draws of \<open>Math.random\<close>
  are the sequence \<open>rnd\<close>, read from position \<open>k\<close> on; an absent or empty colour takes
  the next draw.
\<close>

fun backgroundColors :: "(nat \<Rightarrow> nat) \<Rightarrow> nat \<Rightarrow> slice list \<Rightarrow> string list \<times> nat" where
  "backgroundColors rnd k [] = ([], k)"
| "backgroundColors rnd k (item # items) =
     (case color item of
        Some c \<Rightarrow>
          if c \<noteq> [] then (case backgroundColors rnd k items of (cs, k') \<Rightarrow> (c # cs, k'))
          else (case backgroundColors rnd (Suc k) items of
                  (cs, k') \<Rightarrow> (getRandomColor (rnd k) # cs, k'))
      | None \<Rightarrow>
          (case backgroundColors rnd (Suc k) items of
             (cs, k') \<Rightarrow> (getRandomColor (rnd k) # cs, k')))"

definition getChartConfig :: "(nat \<Rightarrow> nat) \<Rightarrow> nat \<Rightarrow> canvas_inputs \<Rightarrow> chart_config \<times> nat" where
  "getChartConfig rnd k inp =
     (case backgroundColors rnd k (data inp) of
        (cols, k') \<Rightarrow>
          (\<lparr> cfg_type = ''pie'',
             cfg_data = \<lparr> labels = map label (data inp),
                          datasets = [\<lparr> ds_data = map value_num (data inp),
                                        backgroundColor = cols,
                                        hoverOffset = 10,
                                        borderWidth = 1,
                                        borderColor = ''#fff'' \<rparr>] \<rparr>,
             cfg_options = \<lparr> responsive = True,
                             maintainAspectRatio = False,
                             legend_display = showLegend inp,
                             legend_position = ''top'',
                             title_display = (title inp \<noteq> []),
                             title_text = title inp,
                             captured_labelFormat = labelFormat inp,
                             captured_showInlineLabels = showInlineLabels inp,
                             animation_duration = 1000,
                             animation_easing = ''easeInOutQuart'' \<rparr> \<rparr>, k'))"

subsection \<open>The callbacks\<close>

text \<open>\<open>context.chart.data.datasets[0].data.reduce((sum, val) => sum + val, 0)\<close>; reading
  \<open>.data\<close> of a missing first dataset is a \<open>TypeError\<close>.\<close>

definition total_of :: "chart_data \<Rightarrow> js_error + jsnum" where
  "total_of cd =
     (case datasets cd of
        [] \<Rightarrow> Inl TypeError
      | d # _ \<Rightarrow> Inr (foldl (\<lambda>sum v. js_add sum v) (Fin 0) (ds_data d)))"

text \<open>An \<open>undefined\<close> operand of an arithmetic operator converts to \<open>NaN\<close>; in a template
  literal it prints as \<open>undefined\<close>.\<close>

definition to_number :: "jsnum option \<Rightarrow> jsnum" where
  "to_number v = (case v of None \<Rightarrow> NaN | Some x \<Rightarrow> x)"

definition label_to_string :: "string option \<Rightarrow> string" where
  "label_to_string l = (case l of None \<Rightarrow> ''undefined'' | Some s \<Rightarrow> s)"

text \<open>What the formatter returns: the number itself, a string, or \<open>undefined\<close>.\<close>

datatype fmt_result = RNum jsnum | RStr string | RUndefined

definition formatter ::
  "(rat \<Rightarrow> string) \<Rightarrow> string \<Rightarrow> chart_data \<Rightarrow> jsnum \<Rightarrow> nat \<Rightarrow> js_error + fmt_result" where
  "formatter other fmt cd v dataIndex =
     (let lbl = at_index (labels cd) dataIndex in
      case total_of cd of
        Inl e \<Rightarrow> Inl e
      | Inr tot \<Rightarrow>
          (let percentage = Math_round (js_mul (js_div v tot) (Fin 100)) in
           if fmt = ''value'' then Inr (RNum v)
           else if fmt = ''percentage'' then Inr (RStr (js_to_string other percentage @ ''%''))
           else if fmt = ''label-value''
             then Inr (RStr (label_to_string lbl @ '': '' @ js_to_string other v))
           else if fmt = ''label-percentage''
             then Inr (RStr (label_to_string lbl @ '': '' @ js_to_string other percentage @ ''%''))
           else Inr (case lbl of None \<Rightarrow> RUndefined | Some s \<Rightarrow> RStr s)))"

definition display :: "bool \<Rightarrow> chart_data \<Rightarrow> dataset \<Rightarrow> nat \<Rightarrow> js_error + bool" where
  "display shw cd dset dataIndex =
     (if \<not> shw then Inr False
      else case total_of cd of
        Inl e \<Rightarrow> Inl e
      | Inr tot \<Rightarrow>
          (let v = to_number (at_index (ds_data dset) dataIndex);
               percentage = js_mul (js_div v tot) (Fin 100)
           in Inr (js_ge percentage (Fin 5))))"

text \<open>The tooltip callback: \<open>context.label || ''\<close>, \<open>context.raw\<close>, and the same
  percentage as the formatter.\<close>

definition tooltip_label ::
  "(rat \<Rightarrow> string) \<Rightarrow> chart_data \<Rightarrow> string option \<Rightarrow> jsnum \<Rightarrow> js_error + string" where
  "tooltip_label other cd ctx_label raw =
     (let lbl = (case ctx_label of None \<Rightarrow> '''' | Some s \<Rightarrow> s) in
      case total_of cd of
        Inl e \<Rightarrow> Inl e
      | Inr tot \<Rightarrow>
          (let percentage = Math_round (js_mul (js_div raw tot) (Fin 100)) in
           Inr (lbl @ '': '' @ js_to_string other raw @ '' ('' @
                js_to_string other percentage @ ''%)'')))"

text \<open>
  How the datalabels plugin and the tooltip use the callbacks for the point at index
  \<open>i\<close> of the first dataset: \<open>display\<close> is asked first, with the chart, its first dataset
  and \<open>i\<close>; \<open>formatter\<close> gets \<open>dataset.data[i]\<close> as its value. A label is drawn when
  \<open>display\<close> is true.
\<close>

definition label_text ::
  "(rat \<Rightarrow> string) \<Rightarrow> chart_config \<Rightarrow> nat \<Rightarrow> js_error + fmt_result" where
  "label_text other cfg i =
     (case datasets (cfg_data cfg) of
        [] \<Rightarrow> Inl TypeError
      | d # _ \<Rightarrow>
          formatter other (captured_labelFormat (cfg_options cfg)) (cfg_data cfg)
            (to_number (at_index (ds_data d) i)) i)"

definition label_shown :: "chart_config \<Rightarrow> nat \<Rightarrow> js_error + bool" where
  "label_shown cfg i =
     (case datasets (cfg_data cfg) of
        [] \<Rightarrow> Inl TypeError
      | d # _ \<Rightarrow> display (captured_showInlineLabels (cfg_options cfg)) (cfg_data cfg) d i)"

definition tooltip_text :: "(rat \<Rightarrow> string) \<Rightarrow> chart_config \<Rightarrow> nat \<Rightarrow> js_error + string" where
  "tooltip_text other cfg i =
     (case datasets (cfg_data cfg) of
        [] \<Rightarrow> Inl TypeError
      | d # _ \<Rightarrow>
          tooltip_label other (cfg_data cfg) (at_index (labels (cfg_data cfg)) i)
            (to_number (at_index (ds_data d) i)))"

text \<open>The sum of the values of a slice sequence, as \<open>reduce\<close> computes it.\<close>

definition total_sum :: "slice list \<Rightarrow> jsnum" where
  "total_sum ds = foldl (\<lambda>sum v. js_add sum v) (Fin 0) (map value_num ds)"

definition percentage_of :: "slice list \<Rightarrow> nat \<Rightarrow> jsnum" where
  "percentage_of ds i = Math_round (js_mul (js_div (value_num (ds ! i)) (total_sum ds)) (Fin 100))"

text \<open>The defaults of the inputs: \<open>data = []\<close>, \<open>width = height = 300\<close>, no title, no
  legend, inline labels on, \<open>labelFormat = 'label'\<close>.\<close>

definition default_inputs :: canvas_inputs where
  "default_inputs = \<lparr> data = [], width = Fin 300, height = Fin 300, title = '''',
      showLegend = False, showInlineLabels = True, labelFormat = ''label'' \<rparr>"

subsection \<open>The values of a slice sequence\<close>

fun is_fin :: "jsnum \<Rightarrow> bool" where
  "is_fin (Fin _) = True"
| "is_fin _ = False"

fun fin_of :: "jsnum \<Rightarrow> rat" where
  "fin_of (Fin a) = a"
| "fin_of _ = 0"

text \<open>A sequence of non-negative numbers: every value is a binary64 value, finite and not
  below zero.\<close>

definition nonneg_values :: "slice list \<Rightarrow> bool" where
  "nonneg_values ds =
     list_all (\<lambda>s. is_fin (value_num s) \<and> is_double (fin_of (value_num s)) \<and>
                    0 \<le> fin_of (value_num s)) ds"

text \<open>A number that is at least some positive binary64 value: what a sum of non-negative
  values is once it has met a positive one.\<close>

definition above_double :: "jsnum \<Rightarrow> bool" where
  "above_double x \<longleftrightarrow> x = PosInf \<or> (\<exists>c d. x = Fin c \<and> is_double d \<and> 0 < d \<and> d \<le> c)"



subsection \<open>Sample inputs\<close>

definition mk_slice :: "string \<Rightarrow> rat \<Rightarrow> slice" where
  "mk_slice l v = \<lparr> label = l, value_num = Fin v, color = None \<rparr>"

definition scenario :: canvas_inputs where
  "scenario = default_inputs \<lparr> data := [mk_slice ''A'' 30, mk_slice ''B'' 50, mk_slice ''C'' 20],
                               labelFormat := ''label-percentage'' \<rparr>"

definition small_and_large :: canvas_inputs where
  "small_and_large = default_inputs \<lparr> data := [mk_slice ''small'' 4, mk_slice ''large'' 96] \<rparr>"

definition all_zero :: canvas_inputs where
  "all_zero = default_inputs \<lparr> data := [mk_slice ''A'' 0, mk_slice ''B'' 0] \<rparr>"

definition cancelling :: canvas_inputs where
  "cancelling = default_inputs \<lparr> data := [mk_slice ''P'' 5, mk_slice ''N'' (- 5)] \<rparr>"

text \<open>Two values whose percentages are not integers: 57.5 and 42.5 exactly, of which
  binary64 makes 57.49999999999999 and 42.5.\<close>

definition uneven :: canvas_inputs where
  "uneven = default_inputs \<lparr> data := [mk_slice ''X'' 23, mk_slice ''Y'' 17],
                             labelFormat := ''percentage'' \<rparr>"

text \<open>A first value that is less than one twentieth of the total, by one part in
  \<open>10^17\<close>.\<close>

definition boundary :: canvas_inputs where
  "boundary = default_inputs \<lparr> data := [mk_slice ''edge'' 450359962737049,
                                        mk_slice ''rest'' 8556839292003932] \<rparr>"

text \<open>The same with a second value that is greater by one: the share of the first value
  is now less than \<open>label_threshold\<close>.\<close>

definition just_below :: canvas_inputs where
  "just_below = default_inputs \<lparr> data := [mk_slice ''edge'' 450359962737049,
                                          mk_slice ''rest'' 8556839292003933] \<rparr>"

text \<open>A first value that is one twentieth of the total.\<close>

definition twentieth :: canvas_inputs where
  "twentieth = default_inputs \<lparr> data := [mk_slice ''five'' 5, mk_slice ''rest'' 95] \<rparr>"

definition negatives :: canvas_inputs where
  "negatives = default_inputs \<lparr> data := [mk_slice ''a'' (- 10), mk_slice ''b'' (- 90)] \<rparr>"

section \<open>The Canvas widget: lifecycle\<close>

text \<open>
  The canvas of the template; \<open>getContext('2d')\<close> gives a context or \<open>null\<close>.
\<close>

record canvas_element =
  has_2d_context :: bool

text \<open>
  A \<open>Chart\<close> object. Objects are told apart by \<open>inst_id\<close>, the number of \<open>new Chart\<close>
  calls made before this one; \<open>update_calls\<close> counts the calls of \<open>update()\<close> on it.
\<close>

record chart_instance =
  inst_id :: nat
  inst_type :: string
  inst_data :: chart_data
  inst_options :: chart_options
  update_calls :: nat

text \<open>
  The component. Besides its fields (\<open>chart\<close>, the inputs, the \<open>viewChild\<close> reference and
  the \<open>segmentClick\<close> output, kept as the list of payloads emitted so far) the state
  records what the component has done to its surroundings: how many charts it has
  constructed, which it has destroyed, whether its click subscription on the canvas is
  active, how many draws of \<open>Math.random\<close> it has used, and whether the callback given to
  \<open>afterNextRender\<close> is still to run.
\<close>

record canvas_widget =
  inputs :: canvas_inputs
  chartContainer :: "canvas_element option"
  chart :: "chart_instance option"
  created :: nat
  destroyed :: "nat list"
  click_subscribed :: bool
  segmentClick :: "slice list"
  draws :: nat
  afterNextRender_pending :: bool

text \<open>Reading a property of \<open>undefined\<close> raises a \<open>TypeError\<close>.\<close>

definition nativeElement :: "'a option \<Rightarrow> js_error + 'a" where
  "nativeElement r = (case r of None \<Rightarrow> Inl TypeError | Some e \<Rightarrow> Inr e)"

definition initChart :: "(nat \<Rightarrow> nat) \<Rightarrow> canvas_widget \<Rightarrow> js_error + canvas_widget" where
  "initChart rnd w =
     (let chartRef = chartContainer w in
      if chartRef = None then Inr w
      else case nativeElement chartRef of
        Inl e \<Rightarrow> Inl e
      | Inr canvas \<Rightarrow>
          if \<not> has_2d_context canvas then Inr w
          else (let w1 = w \<lparr> click_subscribed := True \<rparr> in
                case getChartConfig rnd (draws w1) (inputs w1) of
                  (cfg, k') \<Rightarrow>
                    Inr (w1 \<lparr> chart := Some \<lparr> inst_id = created w1,
                                              inst_type = cfg_type cfg,
                                              inst_data = cfg_data cfg,
                                              inst_options = cfg_options cfg,
                                              update_calls = 0 \<rparr>,
                              created := Suc (created w1),
                              draws := k' \<rparr>)))"

definition updateChart :: "(nat \<Rightarrow> nat) \<Rightarrow> canvas_widget \<Rightarrow> js_error + canvas_widget" where
  "updateChart rnd w =
     (case chart w of
        None \<Rightarrow> Inr w
      | Some c \<Rightarrow>
          (case getChartConfig rnd (draws w) (inputs w) of
             (cfg, k') \<Rightarrow>
               Inr (w \<lparr> chart := Some (c \<lparr> inst_data := cfg_data cfg,
                                          inst_options := cfg_options cfg,
                                          update_calls := Suc (update_calls c) \<rparr>),
                        draws := k' \<rparr>)))"

text \<open>
  The click subscription. \<open>points\<close> is what \<open>getElementsAtEventForMode\<close> returns for the
  event: the indices of the points hit, nearest first.
\<close>

definition on_canvas_click :: "nat list \<Rightarrow> canvas_widget \<Rightarrow> js_error + canvas_widget" where
  "on_canvas_click points w =
     (if chart w = None then Inr w
      else case points of
        [] \<Rightarrow> Inr w
      | index # _ \<Rightarrow>
          (case at_index (data (inputs w)) index of
             None \<Rightarrow> Inr w
           | Some dataItem \<Rightarrow> Inr (w \<lparr> segmentClick := segmentClick w @ [dataItem] \<rparr>)))"

definition ngOnDestroy :: "canvas_widget \<Rightarrow> js_error + canvas_widget" where
  "ngOnDestroy w =
     (case chart w of
        None \<Rightarrow> Inr w
      | Some c \<Rightarrow> Inr (w \<lparr> destroyed := destroyed w @ [inst_id c], chart := None \<rparr>))"

text \<open>
  What the framework and the user do to the component: an input changes and the effect
  runs \<open>updateChart\<close>; the \<open>viewChild\<close> query resolves; the \<open>afterNextRender\<close> callback
  runs, once; the canvas is clicked, which reaches the subscription while it is active;
  the component is destroyed, which runs \<open>ngOnDestroy\<close> and ends the subscription
  (\<open>takeUntilDestroyed\<close>).
\<close>

datatype canvas_event =
    SetInputs canvas_inputs
  | ViewResolved "canvas_element option"
  | AfterNextRender
  | CanvasClick "nat list"
  | Destroy

fun canvas_step ::
  "(nat \<Rightarrow> nat) \<Rightarrow> canvas_event \<Rightarrow> canvas_widget \<Rightarrow> js_error + canvas_widget" where
  "canvas_step rnd (SetInputs inp) w = updateChart rnd (w \<lparr> inputs := inp \<rparr>)"
| "canvas_step rnd (ViewResolved r) w = Inr (w \<lparr> chartContainer := r \<rparr>)"
| "canvas_step rnd AfterNextRender w =
     (if afterNextRender_pending w then initChart rnd (w \<lparr> afterNextRender_pending := False \<rparr>)
      else Inr w)"
| "canvas_step rnd (CanvasClick points) w =
     (if click_subscribed w then on_canvas_click points w else Inr w)"
| "canvas_step rnd Destroy w =
     (case ngOnDestroy w of
        Inl e \<Rightarrow> Inl e
      | Inr w' \<Rightarrow> Inr (w' \<lparr> click_subscribed := False \<rparr>))"

fun canvas_run ::
  "(nat \<Rightarrow> nat) \<Rightarrow> canvas_event list \<Rightarrow> canvas_widget \<Rightarrow> js_error + canvas_widget" where
  "canvas_run rnd [] w = Inr w"
| "canvas_run rnd (e # es) w =
     (case canvas_step rnd e w of
        Inl err \<Rightarrow> Inl err
      | Inr w' \<Rightarrow> canvas_run rnd es w')"

text \<open>The component as its constructor leaves it.\<close>

definition constructed :: "canvas_inputs \<Rightarrow> canvas_widget" where
  "constructed inp =
     \<lparr> inputs = inp, chartContainer = None, chart = None, created = 0, destroyed = [],
       click_subscribed = False, segmentClick = [], draws = 0,
       afterNextRender_pending = True \<rparr>"

text \<open>The points a chart shows: the values of its first dataset.\<close>

definition rendered_points :: "chart_instance \<Rightarrow> jsnum list" where
  "rendered_points c = (case datasets (inst_data c) of [] \<Rightarrow> [] | d # _ \<Rightarrow> ds_data d)"

section \<open>The SVG widget\<close>

text \<open>A datum of the pie layout (\<open>PieArcDatum\<close>).\<close>

record arc =
  arc_data :: slice
  arc_value :: jsnum
  arc_index :: nat
  startAngle :: jsnum
  endAngle :: jsnum
  padAngle :: jsnum

text \<open>The listeners of the source, one constructor for each function passed to \<open>on\<close>.\<close>

datatype handler =
    EmitArcClick
  | HighlightArc
  | UnhighlightArc
  | HighlightParentArc
  | UnhighlightParentArc
  | MoveTooltip

text \<open>An element of the drawing: tag, attributes, styles, text, the datum bound to it by
  the data join, its listeners by event type, and its children.\<close>

datatype element =
  Element (tag: string) (attrs: "(string \<times> string) list") (styles: "(string \<times> string) list")
    (text_content: string) (datum: "arc option") (listeners: "(string \<times> handler) list")
    (children: "element list")

text \<open>
  What the widget uses of the drawing library. These functions are not code of the
  repository; the model takes them as parameters:
  \<^item> \<open>pie\<close> is \<open>d3.pie().value(d => d.value)\<close>, the layout;
  \<^item> \<open>arc_path r\<close> is the generator \<open>d3.arc().outerRadius(r).innerRadius(0)\<close>, giving the
    \<open>d\<close> attribute of a datum, and \<open>arc_centroid r\<close> the text of its \<open>centroid\<close>;
  \<^item> \<open>scale_new\<close> is a fresh \<open>d3.scaleOrdinal(d3.schemeCategory10)\<close>, an object with a
    state of its own, and \<open>scale_apply\<close> one call of it: the colour for a key and the
    scale after the call.
\<close>

record 'sc d3_lib =
  pie :: "slice list \<Rightarrow> arc list"
  arc_path :: "jsnum \<Rightarrow> arc \<Rightarrow> string"
  arc_centroid :: "jsnum \<Rightarrow> arc \<Rightarrow> string"
  scale_new :: 'sc
  scale_apply :: "'sc \<Rightarrow> string \<Rightarrow> string \<times> 'sc"

record svg_widget =
  svg_data :: "slice list"
  svg_width :: jsnum
  svg_height :: jsnum
  svg_chartContainer :: "element option"
  arcClick :: "slice list"

text \<open>
  \<open>.attr('fill', (d, i) => d.data.color ?? color(i.toString()))\<close>, evaluated for the paths
  in order from index \<open>i\<close> on: the scale is called only for a datum without a colour.
\<close>

fun fills :: "'sc d3_lib \<Rightarrow> 'sc \<Rightarrow> nat \<Rightarrow> arc list \<Rightarrow> string list" where
  "fills lib sc i [] = []"
| "fills lib sc i (d # ds) =
     (case color (arc_data d) of
        Some c \<Rightarrow> c # fills lib sc (Suc i) ds
      | None \<Rightarrow>
          (case scale_apply lib sc (dec i) of
             (c, sc') \<Rightarrow> c # fills lib sc' (Suc i) ds))"

definition path_element :: "'sc d3_lib \<Rightarrow> jsnum \<Rightarrow> arc \<Rightarrow> string \<Rightarrow> element" where
  "path_element lib r d fill =
     Element ''path''
       [(''d'', arc_path lib r d), (''fill'', fill)]
       [(''cursor'', ''pointer'')]
       []
       (Some d)
       [(''click'', EmitArcClick), (''mouseover'', HighlightArc),
        (''mouseout'', UnhighlightArc), (''mousemove'', MoveTooltip)]
       []"

definition text_element :: "'sc d3_lib \<Rightarrow> jsnum \<Rightarrow> arc \<Rightarrow> element" where
  "text_element lib r d =
     Element ''text''
       [(''transform'', ''translate('' @ arc_centroid lib r d @ '')''), (''dy'', ''0.35em'')]
       [(''text-anchor'', ''middle''), (''fill'', ''white''),
        (''font-family'', ''Helvetica, Arial, sans-serif''), (''font-size'', ''10px''),
        (''font-weight'', ''bold''), (''cursor'', ''pointer'')]
       (label (arc_data d))
       (Some d)
       [(''click'', EmitArcClick), (''mouseover'', HighlightParentArc),
        (''mouseout'', UnhighlightParentArc), (''mousemove'', MoveTooltip)]
       []"

text \<open>One group of class \<open>arc\<close> for each datum of the join, holding its path and its label.\<close>

definition arc_group :: "'sc d3_lib \<Rightarrow> jsnum \<Rightarrow> arc \<times> string \<Rightarrow> element" where
  "arc_group lib r p =
     Element ''g'' [(''class'', ''arc'')] [] [] (Some (fst p)) []
       [path_element lib r (fst p) (snd p), text_element lib r (fst p)]"

text \<open>The centred group and everything the draw appends to it.\<close>

definition chart_group ::
  "(rat \<Rightarrow> string) \<Rightarrow> 'sc d3_lib \<Rightarrow> slice list \<Rightarrow> jsnum \<Rightarrow> jsnum \<Rightarrow> element" where
  "chart_group other lib ds wd ht =
     (let radius = js_div (Math_min wd ht) (Fin 2);
          arcs = pie lib ds
      in Element ''g''
           [(''transform'', ''translate('' @ js_to_string other (js_div wd (Fin 2)) @ '','' @
               js_to_string other (js_div ht (Fin 2)) @ '')'')]
           [] [] None []
           (map (arc_group lib (js_sub radius (Fin 10)))
              (zip arcs (fills lib (scale_new lib) 0 arcs))))"

text \<open>\<open>selectAll('*').remove()\<close> on an element leaves it without descendants.\<close>

definition remove_all :: "element \<Rightarrow> element" where
  "remove_all e = Element (tag e) (attrs e) (styles e) (text_content e) (datum e) (listeners e) []"

definition append_child :: "element \<Rightarrow> element \<Rightarrow> element" where
  "append_child e c =
     Element (tag e) (attrs e) (styles e) (text_content e) (datum e) (listeners e)
       (children e @ [c])"

definition drawChart ::
  "(rat \<Rightarrow> string) \<Rightarrow> 'sc d3_lib \<Rightarrow> svg_widget \<Rightarrow> js_error + svg_widget" where
  "drawChart other lib w =
     (let chartRef = svg_chartContainer w in
      if chartRef = None then Inr w
      else case nativeElement chartRef of
        Inl e \<Rightarrow> Inl e
      | Inr el \<Rightarrow>
          (let svg = remove_all el;
               g = chart_group other lib (svg_data w) (svg_width w) (svg_height w)
           in Inr (w \<lparr> svg_chartContainer := Some (append_child svg g) \<rparr>)))"

definition svg_ngOnDestroy :: "svg_widget \<Rightarrow> js_error + svg_widget" where
  "svg_ngOnDestroy w =
     (let chartRef = svg_chartContainer w in
      if chartRef \<noteq> None then
        (case nativeElement chartRef of
           Inl e \<Rightarrow> Inl e
         | Inr el \<Rightarrow> Inr (w \<lparr> svg_chartContainer := Some (remove_all el) \<rparr>))
      else Inr w)"

subsection \<open>Clicks on the drawing\<close>

text \<open>
  An element is addressed by the child indices that lead to it from the \<open>svg\<close> element.
  \<open>branch\<close> lists the elements on the way, the \<open>svg\<close> element first; it is \<open>None\<close> when
  the address leads nowhere.
\<close>

fun branch :: "element \<Rightarrow> nat list \<Rightarrow> element list option" where
  "branch e [] = Some [e]"
| "branch e (i # rest) =
     (case at_index (children e) i of
        None \<Rightarrow> None
      | Some c \<Rightarrow> (case branch c rest of None \<Rightarrow> None | Some es \<Rightarrow> Some (e # es)))"

text \<open>
  A listener is called with the datum of the element it is registered on. The click
  listener \<open>(event, d) => this.arcClick.emit(d.data)\<close> emits; reading \<open>data\<close> of a missing
  datum would be a \<open>TypeError\<close>. The hover listeners change a stroke, an opacity and the
  tooltip, none of which is part of this state.
\<close>

fun call_listener :: "handler \<Rightarrow> element \<Rightarrow> svg_widget \<Rightarrow> js_error + svg_widget" where
  "call_listener EmitArcClick e w =
     (case nativeElement (datum e) of
        Inl err \<Rightarrow> Inl err
      | Inr d \<Rightarrow> Inr (w \<lparr> arcClick := arcClick w @ [arc_data d] \<rparr>))"
| "call_listener _ e w = Inr w"

fun call_listeners ::
  "string \<Rightarrow> (string \<times> handler) list \<Rightarrow> element \<Rightarrow> svg_widget \<Rightarrow> js_error + svg_widget" where
  "call_listeners ev [] e w = Inr w"
| "call_listeners ev ((n, h) # ls) e w =
     (if n = ev then
        (case call_listener h e w of
           Inl err \<Rightarrow> Inl err
         | Inr w' \<Rightarrow> call_listeners ev ls e w')
      else call_listeners ev ls e w)"

text \<open>An event bubbles: the listeners of the target run first, then those of each
  ancestor up to the \<open>svg\<close> element.\<close>

fun bubble :: "string \<Rightarrow> element list \<Rightarrow> svg_widget \<Rightarrow> js_error + svg_widget" where
  "bubble ev [] w = Inr w"
| "bubble ev (e # es) w =
     (case call_listeners ev (listeners e) e w of
        Inl err \<Rightarrow> Inl err
      | Inr w' \<Rightarrow> bubble ev es w')"

definition svg_click :: "nat list \<Rightarrow> svg_widget \<Rightarrow> js_error + svg_widget" where
  "svg_click addr w =
     (case svg_chartContainer w of
        None \<Rightarrow> Inr w
      | Some svg \<Rightarrow>
          (case branch svg addr of
             None \<Rightarrow> Inr w
           | Some es \<Rightarrow> bubble ''click'' (rev es) w))"

text \<open>The effect runs \<open>drawChart\<close> whenever \<open>data\<close>, \<open>width\<close>, \<open>height\<close> or the \<open>viewChild\<close>
  reference changes.\<close>

datatype svg_event =
    SvgSetInputs "slice list" jsnum jsnum
  | SvgViewResolved "element option"
  | SvgClick "nat list"
  | SvgDestroy

fun svg_step ::
  "(rat \<Rightarrow> string) \<Rightarrow> 'sc d3_lib \<Rightarrow> svg_event \<Rightarrow> svg_widget \<Rightarrow> js_error + svg_widget" where
  "svg_step other lib (SvgSetInputs ds wd ht) w =
     drawChart other lib (w \<lparr> svg_data := ds, svg_width := wd, svg_height := ht \<rparr>)"
| "svg_step other lib (SvgViewResolved r) w =
     drawChart other lib (w \<lparr> svg_chartContainer := r \<rparr>)"
| "svg_step other lib (SvgClick addr) w = svg_click addr w"
| "svg_step other lib SvgDestroy w = svg_ngOnDestroy w"

subsection \<open>Reading the drawing\<close>

fun descendants :: "element \<Rightarrow> element list" where
  "descendants (Element t a s x d l cs) = concat (map (\<lambda>c. c # descendants c) cs)"

definition select_class :: "string \<Rightarrow> element \<Rightarrow> element list" where
  "select_class c e = filter (\<lambda>x. map_of (attrs x) ''class'' = Some c) (descendants e)"

definition select_tag :: "string \<Rightarrow> element \<Rightarrow> element list" where
  "select_tag t e = filter (\<lambda>x. tag x = t) (descendants e)"

text \<open>The layout keeps the data: datum \<open>i\<close> of \<open>pie ds\<close> carries \<open>ds ! i\<close>. This is what the
  library documents of \<open>pie\<close>, and the only thing assumed of it below.\<close>

definition keeps_data :: "'sc d3_lib \<Rightarrow> bool" where
  "keeps_data lib = (\<forall>ds. map arc_data (pie lib ds) = ds)"

text \<open>The scale as it is when the fill of the path at position \<open>length ds\<close> is computed,
  after the lookups for the data \<open>ds\<close> before it.\<close>

fun scale_after :: "'sc d3_lib \<Rightarrow> 'sc \<Rightarrow> nat \<Rightarrow> arc list \<Rightarrow> 'sc" where
  "scale_after lib sc i [] = sc"
| "scale_after lib sc i (d # ds) =
     (case color (arc_data d) of
        Some c \<Rightarrow> scale_after lib sc (Suc i) ds
      | None \<Rightarrow> scale_after lib (snd (scale_apply lib sc (dec i))) (Suc i) ds)"


subsection \<open>The ordinal scale of the library\<close>

text \<open>
  The scale is \<open>d3.scaleOrdinal(d3.schemeCategory10)\<close>. As the library documents it, the
  scale keeps the keys it has been asked for, in the order of their first lookup (its
  implicit domain): a key it knows gets the colour at its position in that order, and a
  new key is appended and gets the colour at the position it takes,
  \<open>range[i % range.length]\<close> in both cases. \<open>index_of\<close> is the position of a key in the
  domain, \<open>ordinal_apply\<close> one call of the scale with range \<open>palette\<close>, and
  \<open>schemeCategory10\<close> the ten colours of the palette.
\<close>

fun index_of :: "'a list \<Rightarrow> 'a \<Rightarrow> nat option" where
  "index_of [] x = None"
| "index_of (y # ys) x = (if y = x then Some 0 else map_option Suc (index_of ys x))"

definition ordinal_apply :: "string list \<Rightarrow> string list \<Rightarrow> string \<Rightarrow> string \<times> string list" where
  "ordinal_apply palette keys d =
     (case index_of keys d of
        Some i \<Rightarrow> (palette ! (i mod length palette), keys)
      | None \<Rightarrow> (palette ! (length keys mod length palette), keys @ [d]))"

definition schemeCategory10 :: "string list" where
  "schemeCategory10 =
     [''#1f77b4'', ''#ff7f0e'', ''#2ca02c'', ''#d62728'', ''#9467bd'',
      ''#8c564b'', ''#e377c2'', ''#7f7f7f'', ''#bcbd22'', ''#17becf'']"

text \<open>A library whose scale is that one: fresh, it has seen no key.\<close>

definition category10_scale :: "string list d3_lib \<Rightarrow> bool" where
  "category10_scale lib \<longleftrightarrow>
     scale_new lib = [] \<and> scale_apply lib = ordinal_apply schemeCategory10"

text \<open>The number of slices before index \<open>i\<close> that have no colour of their own.\<close>

definition uncoloured_before :: "slice list \<Rightarrow> nat \<Rightarrow> nat" where
  "uncoloured_before ds i = length (filter (\<lambda>s. color s = None) (take i ds))"

subsection \<open>Abbreviations for the drawing\<close>

text \<open>The outer radius of the arcs, \<open>Math.min(width, height) / 2 - 10\<close>; the data join, each
  datum with its fill; and the \<open>svg\<close> element as \<open>drawChart\<close> leaves it.\<close>

definition outer_radius :: "jsnum \<Rightarrow> jsnum \<Rightarrow> jsnum" where
  "outer_radius wd ht = js_sub (js_div (Math_min wd ht) (Fin 2)) (Fin 10)"

definition joined :: "'sc d3_lib \<Rightarrow> slice list \<Rightarrow> (arc \<times> string) list" where
  "joined lib ds = zip (pie lib ds) (fills lib (scale_new lib) 0 (pie lib ds))"

definition drawn :: "(rat \<Rightarrow> string) \<Rightarrow> 'sc d3_lib \<Rightarrow> svg_widget \<Rightarrow> element \<Rightarrow> element" where
  "drawn other lib w el =
     append_child (remove_all el) (chart_group other lib (svg_data w) (svg_width w) (svg_height w))"

section \<open>Invariants of the Canvas widget\<close>

text \<open>A chart shows the inputs when its labels and points are those of the data, and its
  one dataset has a colour for each of them.\<close>

definition shows_inputs :: "chart_instance \<Rightarrow> canvas_inputs \<Rightarrow> bool" where
  "shows_inputs c inp \<longleftrightarrow>
     labels (inst_data c) = map label (data inp) \<and>
     rendered_points c = map value_num (data inp) \<and>
     map (\<lambda>d. length (backgroundColor d)) (datasets (inst_data c)) = [length (data inp)]"

text \<open>What holds of the component whatever has happened to it since its construction.\<close>

definition canvas_inv :: "canvas_widget \<Rightarrow> bool" where
  "canvas_inv w \<longleftrightarrow>
     created w \<le> 1 \<and>
     (afterNextRender_pending w \<longrightarrow> created w = 0) \<and>
     (case chart w of
        None \<Rightarrow> True
      | Some c \<Rightarrow>
          inst_id c = 0 \<and> created w = 1 \<and> click_subscribed w \<and> shows_inputs c (inputs w))"

text \<open>The component after an initialisation that was abandoned.\<close>

definition inert :: "canvas_widget \<Rightarrow> bool" where
  "inert w \<longleftrightarrow> \<not> afterNextRender_pending w \<and> chart w = None \<and> \<not> click_subscribed w"

section \<open>Instances to run the model on\<close>

text \<open>
  A stand-in for the drawing library: a layout that keeps the data and gives every datum
  an empty arc, constant path texts, and a scale that numbers its calls, so that its
  answer depends on the calls made before.
\<close>

definition stub_lib :: "nat d3_lib" where
  "stub_lib =
     \<lparr> pie = map (\<lambda>s. \<lparr> arc_data = s, arc_value = value_num s, arc_index = 0,
                          startAngle = Fin 0, endAngle = Fin 0, padAngle = Fin 0 \<rparr>),
       arc_path = (\<lambda>r d. ''M0,0Z''),
       arc_centroid = (\<lambda>r d. ''0,0''),
       scale_new = 0,
       scale_apply = (\<lambda>n key. (''#'' @ dec n, Suc n)) \<rparr>"

text \<open>The same stand-in with the ordinal scale of the library over its palette.\<close>

definition d3_stub :: "string list d3_lib" where
  "d3_stub =
     \<lparr> pie = map (\<lambda>s. \<lparr> arc_data = s, arc_value = value_num s, arc_index = 0,
                          startAngle = Fin 0, endAngle = Fin 0, padAngle = Fin 0 \<rparr>),
       arc_path = (\<lambda>r d. ''M0,0Z''),
       arc_centroid = (\<lambda>r d. ''0,0''),
       scale_new = [],
       scale_apply = ordinal_apply schemeCategory10 \<rparr>"

text \<open>An \<open>svg\<close> element that still holds a group from an earlier drawing.\<close>

definition old_svg :: element where
  "old_svg = Element ''svg'' [] [] [] None []
     [Element ''g'' [] [] [] None [] [Element ''g'' [(''class'', ''arc'')] [] [] None [] []]]"

definition mounted :: svg_widget where
  "mounted = \<lparr> svg_data = [mk_slice ''A'' 30, \<lparr> label = ''B'', value_num = Fin 50, color = Some ''#0000ff'' \<rparr>,
                             mk_slice ''C'' 20],
               svg_width = Fin 300, svg_height = Fin 300,
               svg_chartContainer = Some old_svg, arcClick = [] \<rparr>"

text \<open>The same widget with the three slices of the scenario, none of which has a colour.\<close>

definition plain :: svg_widget where
  "plain = mounted \<lparr> svg_data := data scenario \<rparr>"

definition unmounted :: svg_widget where
  "unmounted = mounted \<lparr> svg_chartContainer := None \<rparr>"

definition a_canvas :: canvas_element where
  "a_canvas = \<lparr> has_2d_context = True \<rparr>"

definition no_context :: canvas_element where
  "no_context = \<lparr> has_2d_context = False \<rparr>"

definition session :: "canvas_event list" where
  "session = [SetInputs default_inputs, ViewResolved (Some a_canvas), AfterNextRender,
              SetInputs scenario, AfterNextRender]"

definition a_chart :: chart_instance where
  "a_chart =
     \<lparr> inst_id = 0, inst_type = ''pie'',
       inst_data = cfg_data (fst (getChartConfig (\<lambda>n. 0) 0 scenario)),
       inst_options = cfg_options (fst (getChartConfig (\<lambda>n. 0) 0 scenario)),
       update_calls = 0 \<rparr>"

definition charted :: canvas_widget where
  "charted = (constructed scenario)
     \<lparr> chartContainer := Some a_canvas, chart := Some a_chart, created := 1,
       click_subscribed := True, afterNextRender_pending := False \<rparr>"

definition contextless :: canvas_widget where
  "contextless = (constructed scenario) \<lparr> chartContainer := Some no_context \<rparr>"

definition viewed :: canvas_widget where
  "viewed = (constructed default_inputs) \<lparr> chartContainer := Some a_canvas \<rparr>"

definition cleared :: svg_widget where
  "cleared = mounted \<lparr> svg_chartContainer := Some (remove_all old_svg) \<rparr>"


section \<open>Properties of the rounding\<close>

subsection \<open>The binary logarithm\<close>

lemma bits_pos: "0 < k \<Longrightarrow> 0 < bits k"
  by (subst bits.simps) simp

lemma bits_bounds: "0 < k \<Longrightarrow> 2 ^ (bits k - 1) \<le> k \<and> k < 2 ^ bits k"
proof (induction k rule: bits.induct)
  case (1 k)
  show ?case
  proof (cases "k div 2 \<le> 0")
    case True
    with 1 have "k = 1" by linarith
    then show ?thesis by (simp add: bits.simps)
  next
    case False
    then have p: "0 < k div 2" by simp
    with 1 have ih: "2 ^ (bits (k div 2) - 1) \<le> k div 2" "k div 2 < 2 ^ bits (k div 2)"
      by simp_all
    have b: "bits k = Suc (bits (k div 2))"
      using 1 by (subst bits.simps) simp
    from bits_pos [OF p] have "(2::int) ^ bits (k div 2) = 2 * 2 ^ (bits (k div 2) - 1)"
      by (cases "bits (k div 2)") simp_all
    with ih(1) have "2 ^ bits (k div 2) \<le> 2 * (k div 2)" by simp
    also have "\<dots> \<le> k" by simp
    finally have l: "2 ^ (bits k - 1) \<le> k" by (simp add: b)
    from ih(2) have "k < 2 * 2 ^ bits (k div 2)" by linarith
    then have "k < 2 ^ bits k" by (simp add: b)
    with l show ?thesis by blast
  qed
qed

lemma ilog2_bounds:
  assumes "0 < a"
  shows "2 powi (ilog2 a) \<le> a" and "a < 2 powi (ilog2 a + 1)"
proof -
  show "2 powi (ilog2 a) \<le> a"
  proof (cases "1 \<le> a")
    case True
    define n where "n = \<lfloor>a\<rfloor>"
    from True have n: "0 < n" by (simp add: n_def)
    have e: "ilog2 a = int (bits n - 1)"
      using True bits_pos [OF n] by (simp add: ilog2_def n_def)
    from bits_bounds [OF n] have "(2::rat) ^ (bits n - 1) \<le> of_int n"
      by (metis of_int_le_iff of_int_numeral of_int_power)
    also have "\<dots> \<le> a" by (simp add: n_def)
    finally show ?thesis by (simp add: e)
  next
    case False
    define M where "M = \<lceil>1 / a\<rceil> - 1"
    from False assms have b: "1 < 1 / a" by simp
    then have "2 \<le> \<lceil>1 / a\<rceil>" by linarith
    then have m: "0 < M" unfolding M_def by linarith
    have e: "ilog2 a = - int (bits M)"
      using False by (simp add: ilog2_def M_def)
    from bits_bounds [OF m] have "M + 1 \<le> 2 ^ bits M" by simp
    then have "(of_int (M + 1) :: rat) \<le> 2 ^ bits M"
      by (metis of_int_le_iff of_int_numeral of_int_power)
    moreover have "1 / a \<le> of_int (M + 1)" by (simp add: M_def)
    ultimately have "1 / a \<le> 2 ^ bits M" by simp
    with assms have "1 / 2 ^ bits M \<le> a"
      by (simp add: field_simps)
    then show ?thesis by (simp add: e power_int_minus field_simps)
  qed
  show "a < 2 powi (ilog2 a + 1)"
  proof (cases "1 \<le> a")
    case True
    define n where "n = \<lfloor>a\<rfloor>"
    from True have n: "0 < n" by (simp add: n_def)
    have e: "ilog2 a + 1 = int (bits n)"
      using True by (simp add: ilog2_def n_def)
    from bits_bounds [OF n] have "n + 1 \<le> 2 ^ bits n" by simp
    then have "(of_int (n + 1) :: rat) \<le> 2 ^ bits n"
      by (metis of_int_le_iff of_int_numeral of_int_power)
    moreover have "a < of_int (n + 1)"
      by (simp add: n_def) linarith
    ultimately show ?thesis unfolding e by simp
  next
    case False
    define M where "M = \<lceil>1 / a\<rceil> - 1"
    from False assms have b: "1 < 1 / a" by simp
    then have "2 \<le> \<lceil>1 / a\<rceil>" by linarith
    then have m: "0 < M" unfolding M_def by linarith
    have e: "ilog2 a + 1 = - int (bits M - 1)"
      using False bits_pos [OF m] by (simp add: ilog2_def M_def)
    from bits_bounds [OF m] have "(2::rat) ^ (bits M - 1) \<le> of_int M"
      by (metis of_int_le_iff of_int_numeral of_int_power)
    moreover have "of_int M < 1 / a" unfolding M_def by linarith
    ultimately have "2 ^ (bits M - 1) < 1 / a" by (rule le_less_trans)
    with assms have "a < 1 / 2 ^ (bits M - 1)"
      by (simp add: field_simps)
    then show ?thesis unfolding e by (simp add: power_int_minus field_simps)
  qed
qed


lemma pow2_mono: "i \<le> j \<Longrightarrow> (2::rat) powi i \<le> 2 powi j"
  by (rule power_int_increasing) simp_all


lemma ilog2_ge_iff:
  assumes "0 < a"
  shows "k \<le> ilog2 a \<longleftrightarrow> 2 powi k \<le> a"
proof
  assume "k \<le> ilog2 a"
  then have "(2::rat) powi k \<le> 2 powi (ilog2 a)" by (rule pow2_mono)
  with ilog2_bounds(1) [OF assms] show "2 powi k \<le> a" by simp
next
  assume h: "2 powi k \<le> a"
  show "k \<le> ilog2 a"
  proof (rule ccontr)
    assume "\<not> k \<le> ilog2 a"
    then have "ilog2 a + 1 \<le> k" by simp
    then have "(2::rat) powi (ilog2 a + 1) \<le> 2 powi k" by (rule pow2_mono)
    with ilog2_bounds(2) [OF assms] h show False by simp
  qed
qed

lemma ilog2_mono: "0 < a \<Longrightarrow> a \<le> b \<Longrightarrow> ilog2 a \<le> ilog2 b"
  using ilog2_bounds(1) [of a] ilog2_ge_iff [of b "ilog2 a"] by simp

lemma ilog2_zero: "ilog2 0 = 0"
  by (simp add: ilog2_def bits.simps)

subsection \<open>Rounding is monotone\<close>

lemma round_even_cases: "round_even x = \<lfloor>x\<rfloor> \<or> round_even x = \<lfloor>x\<rfloor> + 1"
  by (simp add: round_even_def Let_def)

lemma round_even_of_int: "round_even (of_int k) = k"
  by (simp add: round_even_def Let_def)

lemma round_even_mono:
  assumes "x \<le> y"
  shows "round_even x \<le> round_even y"
proof (cases "\<lfloor>x\<rfloor> = \<lfloor>y\<rfloor>")
  case True
  with assms show ?thesis
    by (auto simp: round_even_def Let_def)
next
  case False
  with assms have "\<lfloor>x\<rfloor> + 1 \<le> \<lfloor>y\<rfloor>"
    using floor_mono [of x y] by simp
  with round_even_cases [of x] round_even_cases [of y] show ?thesis by auto
qed

lemma round_even_ge: "of_int L \<le> x \<Longrightarrow> L \<le> round_even x"
  using round_even_mono [of "of_int L" x] by (simp add: round_even_of_int)

lemma round_even_le: "x \<le> of_int U \<Longrightarrow> round_even x \<le> U"
  using round_even_mono [of x "of_int U"] by (simp add: round_even_of_int)


lemma rnd_pos_expo: "rnd_pos a = of_int (round_even (a / 2 powi (expo a - 52))) * 2 powi (expo a - 52)"
  by (simp add: rnd_pos_def expo_def Let_def)

lemma rnd_pos_nonneg: "0 \<le> a \<Longrightarrow> 0 \<le> rnd_pos a"
proof -
  assume "0 \<le> a"
  then have "of_int 0 \<le> a / 2 powi (expo a - 52)" by simp
  then have "0 \<le> round_even (a / 2 powi (expo a - 52))" by (rule round_even_ge)
  then show ?thesis by (simp add: rnd_pos_expo)
qed

lemma rnd_pos_upper:
  assumes "0 < a"
  shows "rnd_pos a \<le> 2 powi (expo a + 1)"
proof -
  let ?u = "(2::rat) powi (expo a - 52)"
  have u: "0 < ?u" by simp
  have "a < 2 powi (ilog2 a + 1)" using assms by (rule ilog2_bounds(2))
  also have "\<dots> \<le> 2 powi (expo a + 1)" by (rule pow2_mono) (simp add: expo_def)
  finally have "a \<le> 2 powi (expo a + 1)" by simp
  moreover have s: "(2::rat) powi (expo a + 1) = 2 ^ 53 * ?u"
    using power_int_add [of "2::rat" 53 "expo a - 52"] by (simp add: add.commute)
  ultimately have "a / ?u \<le> of_int (2 ^ 53)"
    using u by (simp add: field_simps)
  then have "round_even (a / ?u) \<le> 2 ^ 53" by (rule round_even_le)
  then have "(of_int (round_even (a / ?u)) :: rat) \<le> 2 ^ 53"
    by (metis of_int_le_iff of_int_numeral of_int_power)
  then have "of_int (round_even (a / ?u)) * ?u \<le> 2 ^ 53 * ?u"
    using u by simp
  then show ?thesis by (simp only: rnd_pos_expo s)
qed

lemma rnd_pos_lower:
  assumes "0 < a" and "- 1022 \<le> ilog2 a"
  shows "2 powi (expo a) \<le> rnd_pos a"
proof -
  let ?u = "(2::rat) powi (expo a - 52)"
  have u: "0 < ?u" by simp
  from assms(2) have e: "expo a = ilog2 a" by (simp add: expo_def)
  have "2 powi (expo a) \<le> a" unfolding e using assms(1) by (rule ilog2_bounds(1))
  moreover have s: "(2::rat) powi (expo a) = 2 ^ 52 * ?u"
    using power_int_add [of "2::rat" 52 "expo a - 52"] by simp
  ultimately have "of_int (2 ^ 52) \<le> a / ?u"
    using u by (simp add: field_simps)
  then have "2 ^ 52 \<le> round_even (a / ?u)" by (rule round_even_ge)
  then have "(2::rat) ^ 52 \<le> of_int (round_even (a / ?u))"
    by (metis of_int_le_iff of_int_numeral of_int_power)
  then have "2 ^ 52 * ?u \<le> of_int (round_even (a / ?u)) * ?u"
    using u by simp
  then show ?thesis by (simp only: rnd_pos_expo s)
qed

lemma rnd_pos_mono:
  assumes "0 < a" and "a \<le> b"
  shows "rnd_pos a \<le> rnd_pos b"
proof (cases "expo a = expo b")
  case True
  let ?u = "(2::rat) powi (expo b - 52)"
  have u: "0 < ?u" by simp
  from assms(2) u have "a / ?u \<le> b / ?u" by (simp add: divide_right_mono)
  then have "round_even (a / ?u) \<le> round_even (b / ?u)" by (rule round_even_mono)
  then have "(of_int (round_even (a / ?u)) :: rat) * ?u \<le> of_int (round_even (b / ?u)) * ?u"
    using u by simp
  then show ?thesis by (simp add: rnd_pos_expo True)
next
  case False
  from assms have b: "0 < b" by simp
  from assms have "ilog2 a \<le> ilog2 b" by (rule ilog2_mono)
  with False have l: "expo a + 1 \<le> expo b" and n: "- 1022 \<le> ilog2 b"
    by (auto simp: expo_def max_def split: if_splits)
  have "rnd_pos a \<le> 2 powi (expo a + 1)" using assms(1) by (rule rnd_pos_upper)
  also have "\<dots> \<le> 2 powi (expo b)" using l by (rule pow2_mono)
  also have "\<dots> \<le> rnd_pos b" using b n by (rule rnd_pos_lower)
  finally show ?thesis .
qed

lemma overflow_iff:
  assumes "0 \<le> m"
  shows "1024 \<le> ilog2 m \<longleftrightarrow> 2 powi 1024 \<le> m"
proof (cases "m = 0")
  case True
  then show ?thesis by (simp add: ilog2_zero)
next
  case False
  with assms have "0 < m" by simp
  then show ?thesis by (rule ilog2_ge_iff)
qed

lemma fl_zero: "fl 0 = Fin 0"
  by (simp add: fl_def)

lemma fl_pos:
  "0 < q \<Longrightarrow> fl q = (if 2 powi 1024 \<le> rnd_pos q then PosInf else Fin (rnd_pos q))"
  using overflow_iff [OF rnd_pos_nonneg, of q] by (simp add: fl_def Let_def)

lemma fl_neg:
  "q < 0 \<Longrightarrow> fl q = (if 2 powi 1024 \<le> rnd_pos (- q) then NegInf else Fin (- rnd_pos (- q)))"
  using overflow_iff [OF rnd_pos_nonneg, of "- q"] by (simp add: fl_def Let_def)

lemma fl_mono:
  assumes "x \<le> y"
  shows "js_ge (fl y) (fl x)"
proof -
  consider "0 < x" | "x = 0" "y = 0" | "x = 0" "0 < y" | "x < 0" "y < 0" | "x < 0" "y = 0"
    | "x < 0" "0 < y"
    using assms by linarith
  then show ?thesis
  proof cases
    case 1
    with assms have y: "0 < y" by simp
    from 1 assms have "rnd_pos x \<le> rnd_pos y" by (rule rnd_pos_mono)
    then show ?thesis by (simp add: fl_pos 1 y)
  next
    case 2
    then show ?thesis by (simp add: fl_zero)
  next
    case 3
    from rnd_pos_nonneg [of y] 3 show ?thesis by (simp add: fl_zero fl_pos)
  next
    case 4
    then have "0 < - y" and "- y \<le> - x" using assms by simp_all
    then have "rnd_pos (- y) \<le> rnd_pos (- x)" by (rule rnd_pos_mono)
    then show ?thesis by (simp add: fl_neg 4)
  next
    case 5
    from rnd_pos_nonneg [of "- x"] 5 show ?thesis by (simp add: fl_zero fl_neg)
  next
    case 6
    from rnd_pos_nonneg [of "- x"] rnd_pos_nonneg [of y] 6 show ?thesis
      by (simp add: fl_pos fl_neg)
  qed
qed

lemma fl_ge:
  assumes "c \<le> x" and "fl c = Fin c'"
  shows "fl x = PosInf \<or> (\<exists>b. fl x = Fin b \<and> c' \<le> b)"
  using fl_mono [OF assms(1)] assms(2) by (cases "fl x") simp_all


subsection \<open>Overflow, underflow and the integers\<close>

lemma fl_overflow:
  assumes "2 powi 1024 \<le> q"
  shows "fl q = PosInf"
proof -
  have "(0::rat) < 2 powi 1024" by simp
  with assms have pos: "0 < q" by linarith
  with assms have "1024 \<le> ilog2 q" by (simp add: ilog2_ge_iff)
  then have e: "1024 \<le> expo q" and n: "- 1022 \<le> ilog2 q" by (simp_all add: expo_def)
  from e have "(2::rat) powi 1024 \<le> 2 powi (expo q)" by (rule pow2_mono)
  also have "\<dots> \<le> rnd_pos q" using pos n by (rule rnd_pos_lower)
  finally show ?thesis using pos by (simp add: fl_pos)
qed

lemma fl_underflow:
  assumes "0 < q" and "q < 2 powi (- 1075)"
  shows "fl q = Fin 0"
proof -
  have "(2::rat) powi (- 1075) \<le> 2 powi (- 1022)" by (rule pow2_mono) simp
  with assms have "\<not> 2 powi (- 1022) \<le> q" by simp
  with assms(1) have "\<not> - 1022 \<le> ilog2 q" by (simp add: ilog2_ge_iff)
  then have e: "expo q = - 1022" by (simp add: expo_def)
  have "(2::rat) powi (- 1075) = 2 powi (- 1074) * 2 powi (- 1)"
    by (simp add: power_int_add [symmetric])
  with assms(2) have "q < 2 powi (- 1074) / 2" by (simp add: power_int_minus)
  then have h: "q / 2 powi (- 1074) < 1 / 2" by (simp add: field_simps)
  from assms(1) have "0 \<le> q / 2 powi (- 1074)" by simp
  with h have "\<lfloor>q / 2 powi (- 1074)\<rfloor> = 0" by linarith
  with h have "round_even (q / 2 powi (- 1074)) = 0" by (simp add: round_even_def Let_def)
  then have "rnd_pos q = 0" by (simp add: rnd_pos_expo e)
  with assms(1) show ?thesis by (simp add: fl_pos)
qed

lemma fl_of_int_pos:
  assumes "0 < n" and "n < 2 ^ 53"
  shows "fl (of_int n) = Fin (of_int n)"
proof -
  let ?a = "of_int n :: rat"
  from assms(1) have pos: "0 < ?a" by simp
  from assms(1) have "2 powi 0 \<le> ?a" by simp
  with pos have lo: "0 \<le> ilog2 ?a" by (simp only: ilog2_ge_iff)
  from assms(2) have "?a < 2 powi 53" by (simp add: of_int_less_iff [symmetric] del: of_int_less_iff)
  with pos have "\<not> 53 \<le> ilog2 ?a" by (simp add: ilog2_ge_iff)
  with lo have hi: "ilog2 ?a \<le> 52" by simp
  from lo have e: "expo ?a = ilog2 ?a" by (simp add: expo_def)
  define k where "k = nat (52 - ilog2 ?a)"
  from hi have k: "ilog2 ?a - 52 = - int k" by (simp add: k_def)
  have u: "(2::rat) powi (expo ?a - 52) = 1 / 2 ^ k"
    by (simp add: e k power_int_minus field_simps)
  have "?a / (2 powi (expo ?a - 52)) = of_int (n * 2 ^ k)" by (simp add: u)
  then have "round_even (?a / (2 powi (expo ?a - 52))) = n * 2 ^ k"
    by (simp only: round_even_of_int)
  then have r: "rnd_pos ?a = ?a" by (simp add: rnd_pos_expo u)
  from assms(2) have "?a < 2 powi 53" by (simp add: of_int_less_iff [symmetric] del: of_int_less_iff)
  also have "\<dots> \<le> 2 powi 1024" by (rule pow2_mono) simp
  finally have "\<not> 2 powi 1024 \<le> rnd_pos ?a" by (simp add: r)
  with pos show ?thesis by (simp add: fl_pos r)
qed

lemma fl_of_int:
  assumes "\<bar>n\<bar> < 2 ^ 53"
  shows "fl (of_int n) = Fin (of_int n)"
proof -
  consider "0 < n" | "n = 0" | "n < 0" by linarith
  then show ?thesis
  proof cases
    case 1
    with assms show ?thesis by (simp add: fl_of_int_pos)
  next
    case 2
    then show ?thesis by (simp add: fl_zero)
  next
    case 3
    with assms have p: "0 < - n" "- n < 2 ^ 53" by simp_all
    from fl_of_int_pos [OF p] have "fl (of_int (- n)) = Fin (of_int (- n))" .
    then have q: "fl (- of_int n) = Fin (- of_int n)" by simp
    from 3 have "(of_int n :: rat) < 0" by simp
    from fl_neg [OF this] fl_pos [of "- of_int n :: rat"] q 3 show ?thesis
      by (simp split: if_splits)
  qed
qed

text \<open>One third, one tenth, the sum of one tenth and two tenths, and two ties above
  \<open>2^53\<close>, against the values every binary64 implementation gives.\<close>

lemma rounding_examples:
  "js_div (Fin 1) (Fin 3) = Fin (6004799503160661 / 2 ^ 54)"
  "js_div (Fin 1) (Fin 10) = Fin (3602879701896397 / 2 ^ 55)"
  "js_add (Fin (3602879701896397 / 2 ^ 55)) (Fin (3602879701896397 / 2 ^ 54)) =
     Fin (1351079888211149 / 2 ^ 52)"
  "js_add (Fin (2 ^ 53)) (Fin 1) = Fin (2 ^ 53)"
  "js_add (Fin (2 ^ 53)) (Fin 3) = Fin (2 ^ 53 + 4)"
  by code_simp+

lemma overflow_example: "js_mul (Fin (2 ^ 1023)) (Fin 2) = PosInf"
proof -
  have "(2::rat) ^ 1023 * 2 = 2 ^ 1024" by simp
  moreover have "fl (2 ^ 1024) = PosInf" by (rule fl_overflow) simp
  ultimately show ?thesis by (simp only: js_mul.simps)
qed

text \<open>The sum of natural numbers is exact as long as it stays below \<open>2^53\<close>.\<close>

lemma foldl_js_add_nat:
  assumes "a + sum_list ns < 2 ^ 53"
  shows "foldl (\<lambda>sum v. js_add sum v) (Fin (of_nat a)) (map (\<lambda>n. Fin (of_nat n)) ns) =
     Fin (of_nat (a + sum_list ns))"
  using assms
proof (induction ns arbitrary: a)
  case Nil
  then show ?case by simp
next
  case (Cons n ns)
  from Cons.prems have b: "(a + n) + sum_list ns < 2 ^ 53" by (simp add: add.assoc)
  then have "a + n < 2 ^ 53" by simp
  then have "\<bar>int (a + n)\<bar> < 2 ^ 53" by (simp add: of_nat_less_iff [symmetric] del: of_nat_less_iff of_nat_add)
  then have "fl (of_int (int (a + n))) = Fin (of_int (int (a + n)))" by (rule fl_of_int)
  then have "js_add (Fin (of_nat a)) (Fin (of_nat n)) = Fin (of_nat (a + n))" by simp
  with Cons.IH [OF b] show ?case by (simp add: add.assoc del: js_add.simps)
qed

lemma total_sum_nat:
  assumes "map value_num ds = map (\<lambda>n. Fin (of_nat n)) ns" and "sum_list ns < 2 ^ 53"
  shows "total_sum ds = Fin (of_nat (sum_list ns))"
  using foldl_js_add_nat [of 0 ns] assms by (simp add: total_sum_def)

subsection \<open>Values computed by the arithmetic\<close>

text \<open>The roundings and the sums of the sample inputs, by evaluation.\<close>

lemma fl_5: "fl 5 = Fin 5" by code_simp





lemmas sample_defs = scenario_def uneven_def boundary_def just_below_def twentieth_def
  negatives_def all_zero_def cancelling_def small_and_large_def default_inputs_def
  mk_slice_def

lemma total_scenario: "total_sum (data scenario) = Fin 100"
  by (simp add: sample_defs total_sum_def del: js_add.simps, code_simp)

lemma pct_scenario:
  "percentage_of (data scenario) 0 = Fin 30"
  "percentage_of (data scenario) 1 = Fin 50"
  "percentage_of (data scenario) 2 = Fin 20"
  by (simp_all add: sample_defs total_sum_def percentage_of_def
      del: js_add.simps js_mul.simps js_div.simps Math_round.simps, code_simp+)

lemma pct_uneven:
  "percentage_of (data uneven) 0 = Fin 57"
  "percentage_of (data uneven) 1 = Fin 43"
  by (simp_all add: sample_defs total_sum_def percentage_of_def
      del: js_add.simps js_mul.simps js_div.simps Math_round.simps, code_simp+)






lemma total_cancelling: "total_sum (data cancelling) = Fin 0"
  by (simp add: sample_defs total_sum_def del: js_add.simps, code_simp)

lemma total_all_zero: "total_sum (data all_zero) = Fin 0"
  by (simp add: sample_defs total_sum_def del: js_add.simps, code_simp)

lemma raw_uneven:
  "js_mul (js_div (Fin 23) (Fin 40)) (Fin 100) = Fin (8092405580431359 / 140737488355328)"
  by code_simp



lemma is_double_0: "is_double 0"
  by (simp add: is_double_def fl_zero)

section \<open>Properties of the Canvas widget's configuration\<close>

subsection \<open>The percentage against five\<close>








subsection \<open>Sums of non-negative values\<close>

lemma above_double_add:
  assumes "above_double x" and "0 \<le> b"
  shows "above_double (js_add x (Fin b))"
proof -
  from assms(1) consider "x = PosInf" | c d where "x = Fin c" "is_double d" "0 < d" "d \<le> c"
    by (auto simp: above_double_def)
  then show ?thesis
  proof cases
    case 1
    then show ?thesis by (simp add: above_double_def)
  next
    case 2
    from 2(4) assms(2) have "d \<le> c + b" by simp
    moreover from 2(2) have "fl d = Fin d" by (simp add: is_double_def)
    ultimately have "fl (c + b) = PosInf \<or> (\<exists>e. fl (c + b) = Fin e \<and> d \<le> e)"
      by (rule fl_ge)
    with 2 show ?thesis by (auto simp: above_double_def)
  qed
qed

lemma above_double_foldl:
  assumes "above_double x" and "list_all (\<lambda>v. is_fin v \<and> 0 \<le> fin_of v) vs"
  shows "above_double (foldl (\<lambda>sum v. js_add sum v) x vs)"
  using assms
proof (induction vs arbitrary: x)
  case Nil
  then show ?case by simp
next
  case (Cons v vs)
  from Cons.prems(2) obtain b where v: "v = Fin b" "0 \<le> b" by (cases v) auto
  from Cons.prems(1) v(2) have "above_double (js_add x (Fin b))" by (rule above_double_add)
  moreover from Cons.prems(2) have "list_all (\<lambda>v. is_fin v \<and> 0 \<le> fin_of v) vs" by simp
  ultimately show ?case by (simp add: v(1) Cons.IH del: js_add.simps)
qed

lemma zero_sum_zero_values:
  assumes "list_all (\<lambda>v. is_fin v \<and> is_double (fin_of v) \<and> 0 \<le> fin_of v) vs"
    and "foldl (\<lambda>sum v. js_add sum v) (Fin 0) vs = Fin 0"
  shows "list_all (\<lambda>v. v = Fin 0) vs"
  using assms
proof (induction vs)
  case Nil
  then show ?case by simp
next
  case (Cons v vs)
  from Cons.prems(1) obtain b where v: "v = Fin b" "is_double b" "0 \<le> b" by (cases v) auto
  from Cons.prems(1) have r: "list_all (\<lambda>v. is_fin v \<and> is_double (fin_of v) \<and> 0 \<le> fin_of v) vs"
    by simp
  show ?case
  proof (cases "b = 0")
    case True
    with Cons.prems(2) v(1) have "foldl (\<lambda>sum v. js_add sum v) (Fin 0) vs = Fin 0"
      by (simp add: fl_zero)
    with r have "list_all (\<lambda>v. v = Fin 0) vs" by (rule Cons.IH)
    with True v(1) show ?thesis by simp
  next
    case False
    with v(3) have p: "0 < b" by simp
    from v(2) have "js_add (Fin 0) v = Fin b" by (simp add: v(1) is_double_def)
    moreover from v(2) p have "above_double (Fin b)" by (auto simp: above_double_def)
    moreover from r have "list_all (\<lambda>v. is_fin v \<and> 0 \<le> fin_of v) vs"
      by (simp add: list_all_iff)
    ultimately have "above_double (foldl (\<lambda>sum v. js_add sum v) (Fin 0) (v # vs))"
      by (simp add: above_double_foldl del: js_add.simps)
    with Cons.prems(2) have "above_double (Fin 0)" by (simp only:)
    then have False by (auto simp: above_double_def)
    then show ?thesis ..
  qed
qed

lemma nonneg_zero_total:
  assumes "nonneg_values ds" and "total_sum ds = Fin 0" and "i < length ds"
  shows "value_num (ds ! i) = Fin 0"
proof -
  from assms(1) have "list_all (\<lambda>v. is_fin v \<and> is_double (fin_of v) \<and> 0 \<le> fin_of v)
      (map value_num ds)"
    by (simp add: nonneg_values_def list_all_iff)
  moreover from assms(2) have "foldl (\<lambda>sum v. js_add sum v) (Fin 0) (map value_num ds) = Fin 0"
    by (simp add: total_sum_def)
  ultimately have "list_all (\<lambda>v. v = Fin 0) (map value_num ds)"
    by (rule zero_sum_zero_values)
  with assms(3) show ?thesis by (simp add: list_all_length)
qed

subsection \<open>What the configuration built from the inputs holds\<close>

lemma total_of_config:
  "total_of (cfg_data (fst (getChartConfig rnd k inp))) = Inr (total_sum (data inp))"
  by (simp add: getChartConfig_def total_of_def total_sum_def split: prod.splits)

lemma labels_config: "labels (cfg_data (fst (getChartConfig rnd k inp))) = map label (data inp)"
  by (simp add: getChartConfig_def split: prod.splits)

lemma datasets_config:
  "\<exists>cols. datasets (cfg_data (fst (getChartConfig rnd k inp))) =
     [\<lparr> ds_data = map value_num (data inp), backgroundColor = cols, hoverOffset = 10,
        borderWidth = 1, borderColor = ''#fff'' \<rparr>]"
  by (simp add: getChartConfig_def split: prod.splits)

lemma label_text_config:
  "label_text other (fst (getChartConfig rnd k inp)) i =
     formatter other (labelFormat inp) (cfg_data (fst (getChartConfig rnd k inp)))
       (to_number (at_index (map value_num (data inp)) i)) i"
proof -
  obtain cols where d: "datasets (cfg_data (fst (getChartConfig rnd k inp))) =
     [\<lparr> ds_data = map value_num (data inp), backgroundColor = cols, hoverOffset = 10,
        borderWidth = 1, borderColor = ''#fff'' \<rparr>]"
    using datasets_config by blast
  have f: "captured_labelFormat (cfg_options (fst (getChartConfig rnd k inp))) = labelFormat inp"
    by (simp add: getChartConfig_def split: prod.splits)
  show ?thesis by (simp add: label_text_def d f)
qed

lemma label_shown_config:
  "label_shown (fst (getChartConfig rnd k inp)) i =
     (if \<not> showInlineLabels inp then Inr False
      else Inr (js_ge (js_mul (js_div (to_number (at_index (map value_num (data inp)) i))
                  (total_sum (data inp))) (Fin 100)) (Fin 5)))"
proof -
  obtain cols where d: "datasets (cfg_data (fst (getChartConfig rnd k inp))) =
     [\<lparr> ds_data = map value_num (data inp), backgroundColor = cols, hoverOffset = 10,
        borderWidth = 1, borderColor = ''#fff'' \<rparr>]"
    using datasets_config by blast
  have f: "captured_showInlineLabels (cfg_options (fst (getChartConfig rnd k inp))) =
      showInlineLabels inp"
    by (simp add: getChartConfig_def split: prod.splits)
  show ?thesis
    by (simp add: label_shown_def d f display_def total_of_config Let_def)
qed

lemma tooltip_text_config:
  "tooltip_text other (fst (getChartConfig rnd k inp)) i =
     tooltip_label other (cfg_data (fst (getChartConfig rnd k inp)))
       (at_index (map label (data inp)) i) (to_number (at_index (map value_num (data inp)) i))"
proof -
  obtain cols where d: "datasets (cfg_data (fst (getChartConfig rnd k inp))) =
     [\<lparr> ds_data = map value_num (data inp), backgroundColor = cols, hoverOffset = 10,
        borderWidth = 1, borderColor = ''#fff'' \<rparr>]"
    using datasets_config by blast
  show ?thesis by (simp add: tooltip_text_def d labels_config)
qed

subsection \<open>Inline label text\<close>

text \<open>
  C3. For every slice sequence, every \<open>labelFormat\<close> and every index \<open>i\<close> of the
  sequence, the inline label of segment \<open>i\<close> is computed without error and is: the raw
  value for \<open>value\<close>; the rounded percentage followed by \<open>%\<close> for \<open>percentage\<close>;
  \<open>label: value\<close> for \<open>label-value\<close>; \<open>label: pct%\<close> for \<open>label-percentage\<close>; and the
  raw label for \<open>label\<close> and for any other format. The percentage is
  \<open>round(value / total * 100)\<close>, where \<open>total\<close> is the sum of all values.
\<close>

theorem formatter_label_text:
  assumes "i < length (data inp)"
  shows "label_text other (fst (getChartConfig rnd k inp)) i =
     Inr (let s = data inp ! i; fmt = labelFormat inp;
              pct = js_to_string other (percentage_of (data inp) i) @ ''%''
          in if fmt = ''value'' then RNum (value_num s)
             else if fmt = ''percentage'' then RStr pct
             else if fmt = ''label-value''
               then RStr (label s @ '': '' @ js_to_string other (value_num s))
             else if fmt = ''label-percentage'' then RStr (label s @ '': '' @ pct)
             else RStr (label s))"
  using assms
  by (simp add: label_text_config formatter_def total_of_config labels_config at_index_def
      to_number_def label_to_string_def percentage_of_def Let_def)

text \<open>The scenario of the specification: values 30, 50 and 20 under \<open>label-percentage\<close>
  give \<open>A: 30%\<close>, \<open>B: 50%\<close> and \<open>C: 20%\<close>; under the other formats the first slice is
  labelled with the number 30, \<open>30%\<close>, \<open>A: 30\<close> and \<open>A\<close>. The values 23 and 17 under
  \<open>percentage\<close> give \<open>57%\<close> and \<open>43%\<close>: the first percentage is rounded from
  57.49999999999999, the binary64 value of \<open>23 / 40 * 100\<close>, and the second from 42.5.\<close>

theorem formatter_label_text_witness:
  "0 < length (data scenario) \<and> 1 < length (data scenario) \<and> 2 < length (data scenario) \<and>
   label_text (\<lambda>q. []) (fst (getChartConfig (\<lambda>n. 0) 0 scenario)) 0 = Inr (RStr ''A: 30%'') \<and>
   label_text (\<lambda>q. []) (fst (getChartConfig (\<lambda>n. 0) 0 scenario)) 1 = Inr (RStr ''B: 50%'') \<and>
   label_text (\<lambda>q. []) (fst (getChartConfig (\<lambda>n. 0) 0 scenario)) 2 = Inr (RStr ''C: 20%'') \<and>
   label_text (\<lambda>q. [])
     (fst (getChartConfig (\<lambda>n. 0) 0 (scenario \<lparr> labelFormat := ''value'' \<rparr>))) 0 =
     Inr (RNum (Fin 30)) \<and>
   label_text (\<lambda>q. [])
     (fst (getChartConfig (\<lambda>n. 0) 0 (scenario \<lparr> labelFormat := ''percentage'' \<rparr>))) 0 =
     Inr (RStr ''30%'') \<and>
   label_text (\<lambda>q. [])
     (fst (getChartConfig (\<lambda>n. 0) 0 (scenario \<lparr> labelFormat := ''label-value'' \<rparr>))) 0 =
     Inr (RStr ''A: 30'') \<and>
   label_text (\<lambda>q. [])
     (fst (getChartConfig (\<lambda>n. 0) 0 (scenario \<lparr> labelFormat := ''label'' \<rparr>))) 0 =
     Inr (RStr ''A'') \<and>
   label_text (\<lambda>q. [])
     (fst (getChartConfig (\<lambda>n. 0) 0 (scenario \<lparr> labelFormat := ''other'' \<rparr>))) 0 =
     Inr (RStr ''A'') \<and>
   0 < length (data uneven) \<and> 1 < length (data uneven) \<and>
   js_mul (js_div (Fin 23) (Fin 40)) (Fin 100) = Fin (8092405580431359 / 140737488355328) \<and>
   label_text (\<lambda>q. []) (fst (getChartConfig (\<lambda>n. 0) 0 uneven)) 0 = Inr (RStr ''57%'') \<and>
   label_text (\<lambda>q. []) (fst (getChartConfig (\<lambda>n. 0) 0 uneven)) 1 = Inr (RStr ''43%'')"
proof -
  have l: "0 < length (data scenario) \<and> 1 < length (data scenario) \<and>
      2 < length (data scenario) \<and> 0 < length (data uneven) \<and> 1 < length (data uneven)"
    by (simp add: sample_defs)
  have s: "data (scenario \<lparr> labelFormat := f \<rparr>) = data scenario" for f by simp
  have d: "data scenario ! 0 = mk_slice ''A'' 30" "data scenario ! 1 = mk_slice ''B'' 50"
    "data scenario ! 2 = mk_slice ''C'' 20"
    by (simp_all add: scenario_def)
  have f: "labelFormat scenario = ''label-percentage''" "labelFormat uneven = ''percentage''"
    by (simp_all add: scenario_def uneven_def)
  have t: "js_to_string (\<lambda>q. []) (Fin 30) = ''30''" "js_to_string (\<lambda>q. []) (Fin 50) = ''50''"
    "js_to_string (\<lambda>q. []) (Fin 20) = ''20''" "js_to_string (\<lambda>q. []) (Fin 57) = ''57''"
    "js_to_string (\<lambda>q. []) (Fin 43) = ''43''"
    by (simp_all add: js_to_string_def dec.simps)
  have r: "js_mul (js_div (Fin 23) (Fin 40)) (Fin 100) = Fin (8092405580431359 / 140737488355328)"
    by (rule raw_uneven)
  have 0: "label_text (\<lambda>q. []) (fst (getChartConfig (\<lambda>n. 0) 0 scenario)) 0 = Inr (RStr ''A: 30%'')"
    using formatter_label_text [where i = 0 and inp = scenario and other = "\<lambda>q. []"
      and rnd = "\<lambda>n. 0" and k = 0] l
    by (simp add: f d pct_scenario t mk_slice_def del: One_nat_def)
  have 1: "label_text (\<lambda>q. []) (fst (getChartConfig (\<lambda>n. 0) 0 scenario)) 1 = Inr (RStr ''B: 50%'')"
    using formatter_label_text [where i = 1 and inp = scenario and other = "\<lambda>q. []"
      and rnd = "\<lambda>n. 0" and k = 0] l
    by (simp add: f d pct_scenario t mk_slice_def del: One_nat_def)
  have 2: "label_text (\<lambda>q. []) (fst (getChartConfig (\<lambda>n. 0) 0 scenario)) 2 = Inr (RStr ''C: 20%'')"
    using formatter_label_text [where i = 2 and inp = scenario and other = "\<lambda>q. []"
      and rnd = "\<lambda>n. 0" and k = 0] l
    by (simp add: f d pct_scenario t mk_slice_def del: One_nat_def)
  have 3: "label_text (\<lambda>q. [])
     (fst (getChartConfig (\<lambda>n. 0) 0 (scenario \<lparr> labelFormat := ''value'' \<rparr>))) 0 =
     Inr (RNum (Fin 30))"
    using formatter_label_text [where i = 0 and inp = "scenario \<lparr> labelFormat := ''value'' \<rparr>"
      and other = "\<lambda>q. []" and rnd = "\<lambda>n. 0" and k = 0] l
    by (simp add: s d mk_slice_def)
  have 4: "label_text (\<lambda>q. [])
     (fst (getChartConfig (\<lambda>n. 0) 0 (scenario \<lparr> labelFormat := ''percentage'' \<rparr>))) 0 =
     Inr (RStr ''30%'')"
    using formatter_label_text [where i = 0 and inp = "scenario \<lparr> labelFormat := ''percentage'' \<rparr>"
      and other = "\<lambda>q. []" and rnd = "\<lambda>n. 0" and k = 0] l
    by (simp add: s d pct_scenario t mk_slice_def)
  have 5: "label_text (\<lambda>q. [])
     (fst (getChartConfig (\<lambda>n. 0) 0 (scenario \<lparr> labelFormat := ''label-value'' \<rparr>))) 0 =
     Inr (RStr ''A: 30'')"
    using formatter_label_text [where i = 0 and inp = "scenario \<lparr> labelFormat := ''label-value'' \<rparr>"
      and other = "\<lambda>q. []" and rnd = "\<lambda>n. 0" and k = 0] l
    by (simp add: s d t mk_slice_def)
  have 6: "label_text (\<lambda>q. [])
     (fst (getChartConfig (\<lambda>n. 0) 0 (scenario \<lparr> labelFormat := ''label'' \<rparr>))) 0 =
     Inr (RStr ''A'')"
    using formatter_label_text [where i = 0 and inp = "scenario \<lparr> labelFormat := ''label'' \<rparr>"
      and other = "\<lambda>q. []" and rnd = "\<lambda>n. 0" and k = 0] l
    by (simp add: s d mk_slice_def)
  have 7: "label_text (\<lambda>q. [])
     (fst (getChartConfig (\<lambda>n. 0) 0 (scenario \<lparr> labelFormat := ''other'' \<rparr>))) 0 =
     Inr (RStr ''A'')"
    using formatter_label_text [where i = 0 and inp = "scenario \<lparr> labelFormat := ''other'' \<rparr>"
      and other = "\<lambda>q. []" and rnd = "\<lambda>n. 0" and k = 0] l
    by (simp add: s d mk_slice_def)
  have 8: "label_text (\<lambda>q. []) (fst (getChartConfig (\<lambda>n. 0) 0 uneven)) 0 = Inr (RStr ''57%'')"
    using formatter_label_text [where i = 0 and inp = uneven and other = "\<lambda>q. []"
      and rnd = "\<lambda>n. 0" and k = 0] l
    by (simp add: f pct_uneven t del: One_nat_def)
  have 9: "label_text (\<lambda>q. []) (fst (getChartConfig (\<lambda>n. 0) 0 uneven)) 1 = Inr (RStr ''43%'')"
    using formatter_label_text [where i = 1 and inp = uneven and other = "\<lambda>q. []"
      and rnd = "\<lambda>n. 0" and k = 0] l
    by (simp add: f pct_uneven t del: One_nat_def)
  from l r 0 1 2 3 4 5 6 7 8 9 show ?thesis by blast
qed

subsection \<open>The five per cent threshold\<close>




subsection \<open>A total of zero\<close>

text \<open>
  C10, as the code has it. For every sequence of non-negative values that sum to zero
  (all of them are then zero) and every index \<open>i\<close> of it, the division by the total is
  \<open>0 / 0\<close>: it raises no error and gives \<open>NaN\<close>, so the percentage is \<open>NaN\<close>, the display
  predicate is false and no inline label is shown, and the formatter and the tooltip
  print \<open>NaN%\<close>.
\<close>

theorem zero_total_gives_NaN:
  assumes "nonneg_values (data inp)" and "total_sum (data inp) = Fin 0"
    and "i < length (data inp)"
  shows "js_div (value_num (data inp ! i)) (total_sum (data inp)) = NaN \<and>
         percentage_of (data inp) i = NaN \<and>
         label_shown (fst (getChartConfig rnd k inp)) i = Inr False \<and>
         (labelFormat inp = ''percentage'' \<longrightarrow>
            label_text other (fst (getChartConfig rnd k inp)) i = Inr (RStr ''NaN%'')) \<and>
         (labelFormat inp = ''label-percentage'' \<longrightarrow>
            label_text other (fst (getChartConfig rnd k inp)) i =
              Inr (RStr (label (data inp ! i) @ '': NaN%''))) \<and>
         tooltip_text other (fst (getChartConfig rnd k inp)) i =
           Inr (label (data inp ! i) @ '': 0 (NaN%)'')"
proof -
  have v: "value_num (data inp ! i) = Fin 0"
    using assms by (rule nonneg_zero_total)
  have p: "percentage_of (data inp) i = NaN"
    by (simp add: percentage_of_def v assms(2))
  have n: "to_number (at_index (map value_num (data inp)) i) = Fin 0"
    using assms(3) by (simp add: to_number_def at_index_def v)
  have s: "label_shown (fst (getChartConfig rnd k inp)) i = Inr False"
    by (simp add: label_shown_config n assms(2))
  have l: "at_index (map label (data inp)) i = Some (label (data inp ! i))"
    using assms(3) by (simp add: at_index_def)
  have t: "tooltip_text other (fst (getChartConfig rnd k inp)) i =
           Inr (label (data inp ! i) @ '': 0 (NaN%)'')"
    by (simp add: tooltip_text_config tooltip_label_def total_of_config n l assms(2)
        js_to_string_def dec.simps)
  have f: "label_text other (fst (getChartConfig rnd k inp)) i =
           formatter other (labelFormat inp) (cfg_data (fst (getChartConfig rnd k inp))) (Fin 0) i"
    by (simp add: label_text_config n)
  show ?thesis
    by (simp add: v assms(2) p s t f formatter_def total_of_config labels_config l
        label_to_string_def js_to_string_def dec.simps)
qed

theorem zero_total_gives_NaN_witness:
  "nonneg_values (data all_zero) \<and> total_sum (data all_zero) = Fin 0 \<and>
   1 < length (data all_zero) \<and>
   js_div (value_num (data all_zero ! 1)) (total_sum (data all_zero)) = NaN \<and>
   percentage_of (data all_zero) 1 = NaN \<and>
   label_shown (fst (getChartConfig (\<lambda>n. 0) 0 all_zero)) 1 = Inr False \<and>
   tooltip_text (\<lambda>q. []) (fst (getChartConfig (\<lambda>n. 0) 0 all_zero)) 1 = Inr ''B: 0 (NaN%)'' \<and>
   labelFormat (all_zero \<lparr> labelFormat := ''percentage'' \<rparr>) = ''percentage'' \<and>
   label_text (\<lambda>q. [])
     (fst (getChartConfig (\<lambda>n. 0) 0 (all_zero \<lparr> labelFormat := ''percentage'' \<rparr>))) 1 =
     Inr (RStr ''NaN%'') \<and>
   labelFormat (all_zero \<lparr> labelFormat := ''label-percentage'' \<rparr>) = ''label-percentage'' \<and>
   label_text (\<lambda>q. [])
     (fst (getChartConfig (\<lambda>n. 0) 0 (all_zero \<lparr> labelFormat := ''label-percentage'' \<rparr>))) 1 =
     Inr (RStr ''B: NaN%'')"
proof -
  have s: "data (all_zero \<lparr> labelFormat := f \<rparr>) = data all_zero" for f by simp
  have n: "nonneg_values (data all_zero)"
    by (simp add: sample_defs nonneg_values_def is_double_0)
  have l: "1 < length (data all_zero)" "label (data all_zero ! 1) = ''B''"
    by (simp_all add: sample_defs)
  note t = total_all_zero
  from zero_total_gives_NaN [where i = 1 and inp = all_zero and other = "\<lambda>q. []"
      and rnd = "\<lambda>n. 0" and k = 0, OF n t l(1)]
  have 0: "js_div (value_num (data all_zero ! 1)) (total_sum (data all_zero)) = NaN"
    "percentage_of (data all_zero) 1 = NaN"
    "label_shown (fst (getChartConfig (\<lambda>n. 0) 0 all_zero)) 1 = Inr False"
    "tooltip_text (\<lambda>q. []) (fst (getChartConfig (\<lambda>n. 0) 0 all_zero)) 1 = Inr ''B: 0 (NaN%)''"
    by (simp_all add: l(2) del: One_nat_def)
  from zero_total_gives_NaN [where i = 1 and inp = "all_zero \<lparr> labelFormat := ''percentage'' \<rparr>"
      and other = "\<lambda>q. []" and rnd = "\<lambda>n. 0" and k = 0] n t l(1)
  have 1: "label_text (\<lambda>q. [])
     (fst (getChartConfig (\<lambda>n. 0) 0 (all_zero \<lparr> labelFormat := ''percentage'' \<rparr>))) 1 =
     Inr (RStr ''NaN%'')"
    by (simp add: s del: One_nat_def)
  from zero_total_gives_NaN [where i = 1
      and inp = "all_zero \<lparr> labelFormat := ''label-percentage'' \<rparr>"
      and other = "\<lambda>q. []" and rnd = "\<lambda>n. 0" and k = 0] n t l(1)
  have 2: "label_text (\<lambda>q. [])
     (fst (getChartConfig (\<lambda>n. 0) 0 (all_zero \<lparr> labelFormat := ''label-percentage'' \<rparr>))) 1 =
     Inr (RStr ''B: NaN%'')"
    by (simp add: s l(2) del: One_nat_def)
  from n t l(1) 0 1 2 show ?thesis by simp
qed

text \<open>
  The claim as written speaks of every sequence whose values sum to zero. With values of
  both signs the total is zero while a single value is not: the quotient of 5 by the
  total of 5 and -5 is \<open>Infinity\<close>, not \<open>NaN\<close>, and the display predicate is true.
\<close>

theorem zero_total_counterexample:
  "total_sum (data cancelling) = Fin 0 \<and>
   percentage_of (data cancelling) 0 = PosInf \<and>
   label_shown (fst (getChartConfig (\<lambda>n. 0) 0 cancelling)) 0 = Inr True"
proof -
  have v: "value_num (data cancelling ! 0) = Fin 5" by (simp add: sample_defs)
  have n: "to_number (at_index (map value_num (data cancelling)) 0) = Fin 5"
    by (simp add: sample_defs to_number_def at_index_def)
  have f: "showInlineLabels cancelling" by (simp add: sample_defs)
  have p: "percentage_of (data cancelling) 0 = PosInf"
    by (simp add: percentage_of_def total_cancelling v)
  have s: "label_shown (fst (getChartConfig (\<lambda>n. 0) 0 cancelling)) 0 = Inr True"
    by (simp add: label_shown_config n f total_cancelling)
  from total_cancelling p s show ?thesis by simp
qed

section \<open>Properties of the Canvas widget's lifecycle\<close>

lemma length_backgroundColors:
  "length (fst (backgroundColors rnd k items)) = length items"
  by (induction items arbitrary: k) (simp_all add: case_prod_beta split: option.splits)

lemma config_shows:
  assumes "getChartConfig rnd k inp = (cfg, k')"
  shows "labels (cfg_data cfg) = map label (data inp)"
    and "datasets (cfg_data cfg) =
       [\<lparr> ds_data = map value_num (data inp),
          backgroundColor = fst (backgroundColors rnd k (data inp)),
          hoverOffset = 10, borderWidth = 1, borderColor = ''#fff'' \<rparr>]"
  using assms by (auto simp: getChartConfig_def split: prod.splits)

lemma shows_inputs_config:
  assumes "getChartConfig rnd k inp = (cfg, k')"
  shows "shows_inputs (c \<lparr> inst_data := cfg_data cfg, inst_options := o', update_calls := n \<rparr>) inp"
  using config_shows [OF assms]
  by (simp add: shows_inputs_def rendered_points_def length_backgroundColors)

subsection \<open>No step raises an error\<close>

lemma canvas_step_total: "\<exists>w'. canvas_step rnd e w = Inr w'"
  by (cases e)
    (auto simp: updateChart_def initChart_def on_canvas_click_def ngOnDestroy_def
      nativeElement_def Let_def split: option.splits prod.splits list.splits)

lemma canvas_run_total: "\<exists>w'. canvas_run rnd es w = Inr w'"
proof (induction es arbitrary: w)
  case Nil
  show ?case by simp
next
  case (Cons e es)
  obtain w1 where "canvas_step rnd e w = Inr w1" using canvas_step_total by blast
  with Cons.IH [of w1] show ?case by simp
qed

subsection \<open>The invariant\<close>

lemma canvas_inv_step:
  assumes "canvas_inv w" and "canvas_step rnd e w = Inr w'"
  shows "canvas_inv w'"
proof (cases e)
  case (SetInputs inp)
  show ?thesis
  proof (cases "chart w")
    case None
    with assms SetInputs show ?thesis by (auto simp: updateChart_def canvas_inv_def)
  next
    case (Some c)
    obtain cfg k' where g: "getChartConfig rnd (draws w) inp = (cfg, k')" by force
    from assms SetInputs Some g shows_inputs_config [OF g] show ?thesis
      by (auto simp: updateChart_def canvas_inv_def)
  qed
next
  case (ViewResolved r)
  with assms show ?thesis by (auto simp: canvas_inv_def split: option.splits)
next
  case AfterNextRender
  show ?thesis
  proof (cases "afterNextRender_pending w")
    case False
    with assms AfterNextRender show ?thesis by simp
  next
    case True
    obtain cfg k' where g: "getChartConfig rnd (draws w) (inputs w) = (cfg, k')" by force
    have s: "shows_inputs \<lparr> inst_id = 0, inst_type = cfg_type cfg, inst_data = cfg_data cfg,
        inst_options = cfg_options cfg, update_calls = 0 \<rparr> (inputs w)"
      using config_shows [OF g]
      by (simp add: shows_inputs_def rendered_points_def length_backgroundColors)
    from assms AfterNextRender True g s show ?thesis
      by (auto simp: initChart_def canvas_inv_def nativeElement_def Let_def
          split: option.splits if_splits)
  qed
next
  case (CanvasClick pts)
  with assms show ?thesis
    by (auto simp: on_canvas_click_def canvas_inv_def split: option.splits list.splits if_splits)
next
  case Destroy
  with assms show ?thesis
    by (auto simp: ngOnDestroy_def canvas_inv_def split: option.splits)
qed

lemma canvas_inv_run:
  "canvas_inv w \<Longrightarrow> canvas_run rnd es w = Inr w' \<Longrightarrow> canvas_inv w'"
proof (induction es arbitrary: w)
  case Nil
  then show ?case by simp
next
  case (Cons e es)
  obtain w1 where s: "canvas_step rnd e w = Inr w1" using canvas_step_total by blast
  with Cons.prems have "canvas_inv w1" and "canvas_run rnd es w1 = Inr w'"
    by (auto dest: canvas_inv_step)
  then show ?case by (rule Cons.IH)
qed

lemma canvas_inv_constructed: "canvas_inv (constructed inp)"
  by (simp add: canvas_inv_def constructed_def)

lemma inert_step:
  assumes "inert w"
  shows "\<exists>w'. canvas_step rnd e w = Inr w' \<and> inert w' \<and> created w' = created w \<and>
           segmentClick w' = segmentClick w"
  using assms
  by (cases e) (auto simp: inert_def updateChart_def ngOnDestroy_def)

lemma inert_run:
  "inert w \<Longrightarrow> \<exists>w'. canvas_run rnd es w = Inr w' \<and> inert w' \<and> created w' = created w \<and>
           segmentClick w' = segmentClick w"
proof (induction es arbitrary: w)
  case Nil
  then show ?case by simp
next
  case (Cons e es)
  from inert_step [OF Cons.prems, of rnd e] obtain w1 where
    s: "canvas_step rnd e w = Inr w1" "inert w1" "created w1 = created w"
       "segmentClick w1 = segmentClick w" by blast
  from Cons.IH [OF s(2)] s show ?case by auto
qed

lemma created_changes:
  assumes "canvas_inv w" and "canvas_step rnd e w = Inr w'" and "created w' \<noteq> created w"
  shows "e = AfterNextRender \<and> afterNextRender_pending w \<and> created w = 0 \<and> created w' = 1 \<and>
         (\<exists>cv. chartContainer w = Some cv \<and> has_2d_context cv) \<and> (\<exists>c. chart w' = Some c)"
proof (cases e)
  case AfterNextRender
  with assms show ?thesis
    by (auto simp: initChart_def canvas_inv_def nativeElement_def Let_def
        split: option.splits if_splits prod.splits)
qed (use assms in \<open>auto simp: updateChart_def on_canvas_click_def ngOnDestroy_def
       split: option.splits if_splits prod.splits list.splits\<close>)

lemma set_inputs_without_chart:
  "chart w = None \<Longrightarrow> canvas_step rnd (SetInputs inp) w = Inr (w \<lparr> inputs := inp \<rparr>)"
  by (simp add: updateChart_def)

lemma set_inputs_with_chart:
  "chart w = Some c \<Longrightarrow>
   canvas_step rnd (SetInputs inp) w =
     Inr (w \<lparr> inputs := inp,
              chart := Some (c \<lparr> inst_data := cfg_data (fst (getChartConfig rnd (draws w) inp)),
                                 inst_options := cfg_options (fst (getChartConfig rnd (draws w) inp)),
                                 update_calls := Suc (update_calls c) \<rparr>),
              draws := snd (getChartConfig rnd (draws w) inp) \<rparr>)"
  by (simp add: updateChart_def case_prod_beta)

lemma run_inert_after_failed_init:
  assumes "afterNextRender_pending cw" and "chart cw = None" and "\<not> click_subscribed cw"
    and "chartContainer cw = None \<or> (\<exists>cv. chartContainer cw = Some cv \<and> \<not> has_2d_context cv)"
  shows "canvas_step rnd AfterNextRender cw = Inr (cw \<lparr> afterNextRender_pending := False \<rparr>)"
    and "\<exists>cw'. canvas_run rnd es (cw \<lparr> afterNextRender_pending := False \<rparr>) = Inr cw' \<and>
           chart cw' = None \<and> created cw' = created cw \<and> segmentClick cw' = segmentClick cw"
proof -
  show "canvas_step rnd AfterNextRender cw = Inr (cw \<lparr> afterNextRender_pending := False \<rparr>)"
    using assms by (auto simp: initChart_def nativeElement_def Let_def)
  have "inert (cw \<lparr> afterNextRender_pending := False \<rparr>)"
    using assms by (simp add: inert_def)
  from inert_run [OF this, of rnd es]
  show "\<exists>cw'. canvas_run rnd es (cw \<lparr> afterNextRender_pending := False \<rparr>) = Inr cw' \<and>
           chart cw' = None \<and> created cw' = created cw \<and> segmentClick cw' = segmentClick cw"
    by (auto simp: inert_def)
qed

lemma click_in_range:
  assumes "canvas_inv cw" and "chart cw = Some c" and "j < length (rendered_points c)"
  shows "canvas_step rnd (CanvasClick (j # rest)) cw =
           Inr (cw \<lparr> segmentClick := segmentClick cw @ [data (inputs cw) ! j] \<rparr>)"
  using assms
  by (simp add: canvas_inv_def shows_inputs_def on_canvas_click_def at_index_def)

lemma session_end:
  "\<exists>cw c. canvas_run (\<lambda>n. 0) session (constructed default_inputs) = Inr cw \<and>
     chart cw = Some c \<and> created cw = 1 \<and> update_calls c = 1 \<and>
     labels (inst_data c) = [''A'', ''B'', ''C''] \<and>
     rendered_points c = [Fin 30, Fin 50, Fin 20] \<and>
     data (inputs cw) = data scenario \<and> segmentClick cw = []"
  by (simp add: session_def constructed_def a_canvas_def initChart_def updateChart_def
      nativeElement_def getChartConfig_def rendered_points_def scenario_def default_inputs_def
      mk_slice_def Let_def)

lemma viewed_init:
  "\<exists>w'. canvas_step (\<lambda>n. 0) AfterNextRender viewed = Inr w' \<and> created w' \<noteq> created viewed"
  by (simp add: viewed_def constructed_def a_canvas_def initChart_def nativeElement_def
      case_prod_beta Let_def)

section \<open>Properties of the SVG widget's drawing\<close>

lemma length_fills: "length (fills lib sc i ds) = length ds"
  by (induction ds arbitrary: sc i) (simp_all add: case_prod_beta split: option.splits)

lemma fills_nth:
  "j < length ds \<Longrightarrow>
   fills lib sc i ds ! j =
     (case color (arc_data (ds ! j)) of
        Some c \<Rightarrow> c
      | None \<Rightarrow> fst (scale_apply lib (scale_after lib sc i (take j ds)) (dec (i + j))))"
proof (induction ds arbitrary: sc i j)
  case Nil
  then show ?case by simp
next
  case (Cons d ds)
  show ?case
  proof (cases j)
    case 0
    then show ?thesis by (simp add: case_prod_beta split: option.splits)
  next
    case (Suc m)
    with Cons.prems have m: "m < length ds" by simp
    from Cons.IH [OF m] Suc show ?thesis
      by (simp add: case_prod_beta split: option.splits)
  qed
qed

lemma length_joined: "length (joined lib ds) = length (pie lib ds)"
  by (simp add: joined_def length_fills)

lemma joined_nth:
  "i < length (pie lib ds) \<Longrightarrow>
   joined lib ds ! i = (pie lib ds ! i, fills lib (scale_new lib) 0 (pie lib ds) ! i)"
  by (simp add: joined_def length_fills)

lemma map_fst_joined: "map fst (joined lib ds) = pie lib ds"
  by (simp add: joined_def length_fills)

lemma chart_group_children:
  "children (chart_group other lib ds wd ht) =
     map (arc_group lib (outer_radius wd ht)) (joined lib ds)"
  by (simp add: chart_group_def outer_radius_def joined_def Let_def)

lemma chart_group_simps:
  "tag (chart_group other lib ds wd ht) = ''g''"
  "listeners (chart_group other lib ds wd ht) = []"
  "map_of (attrs (chart_group other lib ds wd ht)) ''class'' = None"
  by (simp_all add: chart_group_def Let_def)

lemma descendants_children: "descendants e = concat (map (\<lambda>c. c # descendants c) (children e))"
  by (cases e) simp

lemma descendants_arc_group:
  "descendants (arc_group lib r p) =
     [path_element lib r (fst p) (snd p), text_element lib r (fst p)]"
  by (simp add: arc_group_def path_element_def text_element_def)

lemma descendants_chart_group:
  "descendants (chart_group other lib ds wd ht) =
     concat (map (\<lambda>p. [arc_group lib (outer_radius wd ht) p,
                        path_element lib (outer_radius wd ht) (fst p) (snd p),
                        text_element lib (outer_radius wd ht) (fst p)]) (joined lib ds))"
  by (subst descendants_children)
    (simp add: chart_group_children descendants_arc_group comp_def)

lemma descendants_drawn:
  "descendants (drawn other lib w el) =
     chart_group other lib (svg_data w) (svg_width w) (svg_height w) #
     descendants (chart_group other lib (svg_data w) (svg_width w) (svg_height w))"
  by (simp add: drawn_def append_child_def remove_all_def)

lemma filter_triples:
  assumes "\<And>p. P (A p)" and "\<And>p. \<not> P (B p)" and "\<And>p. \<not> P (C p)"
  shows "filter P (concat (map (\<lambda>p. [A p, B p, C p]) zs)) = map A zs"
  using assms by (induction zs) simp_all

lemma filter_triples2:
  assumes "\<And>p. \<not> P (A p)" and "\<And>p. P (B p)" and "\<And>p. \<not> P (C p)"
  shows "filter P (concat (map (\<lambda>p. [A p, B p, C p]) zs)) = map B zs"
  using assms by (induction zs) simp_all

lemma filter_triples3:
  assumes "\<And>p. \<not> P (A p)" and "\<And>p. \<not> P (B p)" and "\<And>p. P (C p)"
  shows "filter P (concat (map (\<lambda>p. [A p, B p, C p]) zs)) = map C zs"
  using assms by (induction zs) simp_all

lemma select_arcs:
  "select_class ''arc'' (drawn other lib w el) =
     map (arc_group lib (outer_radius (svg_width w) (svg_height w))) (joined lib (svg_data w))"
  unfolding select_class_def descendants_drawn descendants_chart_group
  by (simp add: chart_group_simps)
    (rule filter_triples; simp add: arc_group_def path_element_def text_element_def)

lemma select_paths:
  "select_tag ''path'' (drawn other lib w el) =
     map (\<lambda>p. path_element lib (outer_radius (svg_width w) (svg_height w)) (fst p) (snd p))
       (joined lib (svg_data w))"
  unfolding select_tag_def descendants_drawn descendants_chart_group
  by (simp add: chart_group_simps)
    (rule filter_triples2; simp add: arc_group_def path_element_def text_element_def)

lemma select_texts:
  "select_tag ''text'' (drawn other lib w el) =
     map (\<lambda>p. text_element lib (outer_radius (svg_width w) (svg_height w)) (fst p))
       (joined lib (svg_data w))"
  unfolding select_tag_def descendants_drawn descendants_chart_group
  by (simp add: chart_group_simps)
    (rule filter_triples3; simp add: arc_group_def path_element_def text_element_def)

lemma drawChart_mounted:
  "svg_chartContainer w = Some el \<Longrightarrow>
   drawChart other lib w = Inr (w \<lparr> svg_chartContainer := Some (drawn other lib w el) \<rparr>)"
  by (simp add: drawChart_def nativeElement_def drawn_def Let_def)

lemma drawChart_unmounted: "svg_chartContainer w = None \<Longrightarrow> drawChart other lib w = Inr w"
  by (simp add: drawChart_def)

lemma drawn_children:
  "children (drawn other lib w el) =
     [chart_group other lib (svg_data w) (svg_width w) (svg_height w)]"
  by (simp add: drawn_def append_child_def remove_all_def)

lemma drawn_again:
  "drawn other lib (w \<lparr> svg_chartContainer := r \<rparr>) (drawn other lib w el) = drawn other lib w el"
  by (simp add: drawn_def append_child_def remove_all_def)

lemma path_fill: "map_of (attrs (path_element lib r d f)) ''fill'' = Some f"
  by (simp add: path_element_def)

lemma text_of_text_element: "text_content (text_element lib r d) = label (arc_data d)"
  by (simp add: text_element_def)

lemma arc_group_datum: "datum (arc_group lib r p) = Some (fst p)"
  by (simp add: arc_group_def)

lemma keeps_data_stub: "keeps_data stub_lib"
  by (simp add: keeps_data_def stub_lib_def comp_def)

lemma keeps_data_nth:
  "keeps_data lib \<Longrightarrow> i < length ds \<Longrightarrow> arc_data (pie lib ds ! i) = ds ! i"
  by (metis keeps_data_def length_map nth_map)

lemma keeps_data_length: "keeps_data lib \<Longrightarrow> length (pie lib ds) = length ds"
  by (metis keeps_data_def length_map)

subsection \<open>Clicks\<close>

lemma branch_path:
  assumes "i < length (pie lib (svg_data w))"
  shows "branch (drawn other lib w el) [0, i, 0] =
     Some [drawn other lib w el,
           chart_group other lib (svg_data w) (svg_width w) (svg_height w),
           arc_group lib (outer_radius (svg_width w) (svg_height w)) (joined lib (svg_data w) ! i),
           path_element lib (outer_radius (svg_width w) (svg_height w))
             (fst (joined lib (svg_data w) ! i)) (snd (joined lib (svg_data w) ! i))]"
  using assms
  by (simp add: drawn_children chart_group_children at_index_def length_joined)
    (simp add: arc_group_def)

lemma branch_text:
  assumes "i < length (pie lib (svg_data w))"
  shows "branch (drawn other lib w el) [0, i, Suc 0] =
     Some [drawn other lib w el,
           chart_group other lib (svg_data w) (svg_width w) (svg_height w),
           arc_group lib (outer_radius (svg_width w) (svg_height w)) (joined lib (svg_data w) ! i),
           text_element lib (outer_radius (svg_width w) (svg_height w))
             (fst (joined lib (svg_data w) ! i))]"
  using assms
  by (simp add: drawn_children chart_group_children at_index_def length_joined)
    (simp add: arc_group_def)

lemma drawn_listeners: "listeners (drawn other lib w el) = listeners el"
  by (simp add: drawn_def append_child_def remove_all_def)

lemma click_on_drawn:
  assumes "svg_chartContainer w' = Some (drawn other lib w el)" and "listeners el = []"
    and "i < length (pie lib (svg_data w))"
  shows "svg_click [0, i, 0] w' =
           Inr (w' \<lparr> arcClick := arcClick w' @ [arc_data (pie lib (svg_data w) ! i)] \<rparr>)"
    and "svg_click [0, i, 1] w' =
           Inr (w' \<lparr> arcClick := arcClick w' @ [arc_data (pie lib (svg_data w) ! i)] \<rparr>)"
  using assms
  by (simp_all add: svg_click_def branch_path branch_text drawn_listeners chart_group_simps
      joined_nth arc_group_def path_element_def text_element_def nativeElement_def
      del: branch.simps)

subsection \<open>The ordinal scale\<close>

lemma dec_not_Nil: "dec n \<noteq> []"
  by (subst dec.simps) simp

lemma digit_inj:
  assumes "m < 10" and "n < 10" and "''0123456789'' ! m = ''0123456789'' ! n"
  shows "m = n"
proof -
  have "distinct ''0123456789''" by simp
  moreover have "length ''0123456789'' = 10" by simp
  ultimately show ?thesis using assms by (simp only: nth_eq_iff_index_eq)
qed

lemma dec_inj: "dec m = dec n \<Longrightarrow> m = n"
proof (induction m arbitrary: n rule: dec.induct)
  case (1 m)
  show ?case
  proof (cases "m < 10")
    case True
    then have m: "dec m = [''0123456789'' ! m]" by (subst dec.simps) simp
    show ?thesis
    proof (cases "n < 10")
      case n: True
      then have "dec n = [''0123456789'' ! n]" by (subst dec.simps) simp
      with m 1(2) have "''0123456789'' ! m = ''0123456789'' ! n" by simp
      with True n show ?thesis by (rule digit_inj)
    next
      case False
      then have "dec n = dec (n div 10) @ [''0123456789'' ! (n mod 10)]"
        by (subst dec.simps) simp
      with m 1(2) have "dec (n div 10) = []" by simp
      with dec_not_Nil show ?thesis by blast
    qed
  next
    case False
    then have m: "dec m = dec (m div 10) @ [''0123456789'' ! (m mod 10)]"
      by (subst dec.simps) simp
    show ?thesis
    proof (cases "n < 10")
      case True
      then have "dec n = [''0123456789'' ! n]" by (subst dec.simps) simp
      with m 1(2) have "dec (m div 10) = []" by simp
      with dec_not_Nil show ?thesis by blast
    next
      case n: False
      then have "dec n = dec (n div 10) @ [''0123456789'' ! (n mod 10)]"
        by (subst dec.simps) simp
      with m 1(2) have e: "dec (m div 10) = dec (n div 10)"
        and d: "''0123456789'' ! (m mod 10) = ''0123456789'' ! (n mod 10)"
        by simp_all
      from False e have "m div 10 = n div 10" by (rule 1(1))
      moreover have "m mod 10 = n mod 10"
        by (rule digit_inj [OF _ _ d]) simp_all
      ultimately show ?thesis by (metis div_mult_mod_eq)
    qed
  qed
qed

lemma index_of_None: "x \<notin> set xs \<Longrightarrow> index_of xs x = None"
  by (induction xs) auto

lemma ordinal_apply_new:
  "d \<notin> set keys \<Longrightarrow>
   ordinal_apply palette keys d = (palette ! (length keys mod length palette), keys @ [d])"
  by (simp add: ordinal_apply_def index_of_None)

lemma scale_after_ordinal:
  assumes "scale_apply lib = ordinal_apply palette" and "set keys \<subseteq> dec ` {..<i}"
  shows "set (scale_after lib keys i ds) \<subseteq> dec ` {..<i + length ds} \<and>
         length (scale_after lib keys i ds) =
           length keys + length (filter (\<lambda>d. color (arc_data d) = None) ds)"
  using assms(2)
proof (induction ds arbitrary: keys i)
  case Nil
  then show ?case by simp
next
  case (Cons d ds)
  show ?case
  proof (cases "color (arc_data d)")
    case None
    from Cons.prems have "dec i \<notin> set keys"
      using dec_inj by fastforce
    then have a: "scale_apply lib keys (dec i) =
        (palette ! (length keys mod length palette), keys @ [dec i])"
      by (simp add: assms(1) ordinal_apply_new)
    from Cons.prems have "set (keys @ [dec i]) \<subseteq> dec ` {..<Suc i}"
      by (auto simp: lessThan_Suc)
    from Cons.IH [OF this] None a show ?thesis by simp
  next
    case (Some c)
    from Cons.prems have "set keys \<subseteq> dec ` {..<Suc i}"
      by (auto simp: lessThan_Suc)
    from Cons.IH [OF this] Some show ?thesis by simp
  qed
qed

lemma length_schemeCategory10: "length schemeCategory10 = 10"
  by (simp add: schemeCategory10_def)

lemma ordinal_fill:
  assumes "category10_scale lib" and "i \<le> length ds"
  shows "fst (scale_apply lib (scale_after lib (scale_new lib) 0 (take i ds)) (dec i)) =
     schemeCategory10 ! (length (filter (\<lambda>d. color (arc_data d) = None) (take i ds)) mod 10)"
proof -
  from assms(1) have a: "scale_apply lib = ordinal_apply schemeCategory10"
    and n: "scale_new lib = []"
    by (simp_all add: category10_scale_def)
  have "set ([] :: string list) \<subseteq> dec ` {..<0}" by simp
  from scale_after_ordinal [OF a this, of "take i ds"] assms(2)
  have s: "set (scale_after lib [] 0 (take i ds)) \<subseteq> dec ` {..<i}"
    and l: "length (scale_after lib [] 0 (take i ds)) =
      length (filter (\<lambda>d. color (arc_data d) = None) (take i ds))"
    by (simp_all add: min_absorb2)
  from s have "dec i \<notin> set (scale_after lib [] 0 (take i ds))"
    using dec_inj by fastforce
  then show ?thesis
    by (simp add: a n ordinal_apply_new l length_schemeCategory10)
qed

lemma uncoloured_pie:
  assumes "keeps_data lib"
  shows "length (filter (\<lambda>d. color (arc_data d) = None) (take i (pie lib ds))) =
     uncoloured_before ds i"
proof -
  have "filter (\<lambda>s. color s = None) (map arc_data (take i (pie lib ds))) =
      map arc_data (filter (\<lambda>d. color (arc_data d) = None) (take i (pie lib ds)))"
    by (simp add: filter_map comp_def)
  moreover from assms have "map arc_data (take i (pie lib ds)) = take i ds"
    by (simp add: keeps_data_def take_map [symmetric])
  ultimately have "length (filter (\<lambda>s. color s = None) (take i ds)) =
      length (filter (\<lambda>d. color (arc_data d) = None) (take i (pie lib ds)))"
    by (metis length_map)
  then show ?thesis by (simp add: uncoloured_before_def)
qed

lemma drawn_fill:
  assumes "keeps_data lib" and "i < length (svg_data w)"
  shows "map_of (attrs (select_tag ''path'' (drawn other lib w el) ! i)) ''fill'' =
     Some (case color (svg_data w ! i) of
             Some c \<Rightarrow> c
           | None \<Rightarrow>
               fst (scale_apply lib
                     (scale_after lib (scale_new lib) 0 (take i (pie lib (svg_data w))))
                     (dec i)))"
proof -
  from assms have n: "i < length (pie lib (svg_data w))" by (simp add: keeps_data_length)
  from assms have d: "arc_data (pie lib (svg_data w) ! i) = svg_data w ! i"
    by (simp add: keeps_data_nth)
  from n fills_nth [of i "pie lib (svg_data w)" lib "scale_new lib" 0]
  show ?thesis
    by (simp add: select_paths length_joined joined_nth path_fill d split: option.splits)
qed

lemma drawn_fill_ordinal:
  assumes "keeps_data lib" and "category10_scale lib" and "i < length (svg_data w)"
  shows "map_of (attrs (select_tag ''path'' (drawn other lib w el) ! i)) ''fill'' =
     Some (case color (svg_data w ! i) of
             Some c \<Rightarrow> c
           | None \<Rightarrow> schemeCategory10 ! (uncoloured_before (svg_data w) i mod 10))"
proof -
  from assms(1,3) have "i \<le> length (pie lib (svg_data w))" by (simp add: keeps_data_length)
  with assms(2) have "fst (scale_apply lib
      (scale_after lib (scale_new lib) 0 (take i (pie lib (svg_data w)))) (dec i)) =
      schemeCategory10 ! (uncoloured_before (svg_data w) i mod 10)"
    by (simp add: ordinal_fill uncoloured_pie [OF assms(1)])
  with drawn_fill [OF assms(1,3), of other el] show ?thesis
    by (simp split: option.splits)
qed

lemma keeps_data_d3_stub: "keeps_data d3_stub"
  by (simp add: keeps_data_def d3_stub_def comp_def)

lemma category10_d3_stub: "category10_scale d3_stub"
  by (simp add: category10_scale_def d3_stub_def)

lemma uncoloured_before_all:
  assumes "\<forall>j < i. color (ds ! j) = None" and "i \<le> length ds"
  shows "uncoloured_before ds i = i"
proof -
  have "\<forall>s \<in> set (take i ds). color s = None"
  proof
    fix s
    assume "s \<in> set (take i ds)"
    then obtain j where "j < length (take i ds)" "take i ds ! j = s"
      by (auto simp: in_set_conv_nth)
    with assms show "color s = None" by auto
  qed
  then have "filter (\<lambda>s. color s = None) (take i ds) = take i ds" by simp
  with assms(2) show ?thesis by (simp add: uncoloured_before_def)
qed

lemma all_less_3: "(\<forall>j < (3::nat). P j) \<longleftrightarrow> P 0 \<and> P 1 \<and> P 2"
proof -
  have "j < 3 \<longleftrightarrow> j = 0 \<or> j = 1 \<or> j = 2" for j :: nat by auto
  then show ?thesis by auto
qed

section \<open>The claims about both widgets\<close>

subsection \<open>Segments after a redraw\<close>

text \<open>
  C1. After a redraw the segments are those of the current data and nothing of an earlier
  drawing is left. SVG widget, with the surface mounted: the draw succeeds; the \<open>svg\<close>
  element then has one child, the group built from the current inputs alone, whatever it
  held before; the groups of class \<open>arc\<close> carry the data of the pie layout, one group for
  each datum in order; and when the layout keeps the data, there are as many groups, paths
  and labels as slices. Canvas widget: in the configuration built from the inputs, the
  labels, the values and the colours each have the length of the data, and an input
  change on a widget that has its chart puts this configuration's data into the chart.
\<close>

theorem redraw_segment_count:
  "(svg_chartContainer w = Some el \<longrightarrow>
      (\<exists>svg. drawChart other lib w = Inr (w \<lparr> svg_chartContainer := Some svg \<rparr>) \<and>
         children svg = [chart_group other lib (svg_data w) (svg_width w) (svg_height w)] \<and>
         map datum (select_class ''arc'' svg) = map Some (pie lib (svg_data w)) \<and>
         (keeps_data lib \<longrightarrow>
            length (select_class ''arc'' svg) = length (svg_data w) \<and>
            length (select_tag ''path'' svg) = length (svg_data w) \<and>
            length (select_tag ''text'' svg) = length (svg_data w)))) \<and>
   length (labels (cfg_data (fst (getChartConfig rnd k inp)))) = length (data inp) \<and>
   map (\<lambda>d. (length (ds_data d), length (backgroundColor d)))
     (datasets (cfg_data (fst (getChartConfig rnd k inp)))) =
     [(length (data inp), length (data inp))] \<and>
   (chart cw = Some c \<longrightarrow>
      (\<exists>cw' c'. canvas_step rnd (SetInputs inp) cw = Inr cw' \<and> chart cw' = Some c' \<and>
         inst_data c' = cfg_data (fst (getChartConfig rnd (draws cw) inp)) \<and>
         length (labels (inst_data c')) = length (data inp) \<and>
         length (rendered_points c') = length (data inp)))"
proof (intro conjI impI)
  assume m: "svg_chartContainer w = Some el"
  let ?svg = "drawn other lib w el"
  have "map datum (select_class ''arc'' ?svg) = map Some (pie lib (svg_data w))"
    by (simp add: select_arcs arc_group_datum comp_def map_fst_joined [symmetric])
  moreover have "keeps_data lib \<longrightarrow>
            length (select_class ''arc'' ?svg) = length (svg_data w) \<and>
            length (select_tag ''path'' ?svg) = length (svg_data w) \<and>
            length (select_tag ''text'' ?svg) = length (svg_data w)"
    by (simp add: select_arcs select_paths select_texts length_joined keeps_data_length)
  ultimately show "\<exists>svg. drawChart other lib w = Inr (w \<lparr> svg_chartContainer := Some svg \<rparr>) \<and>
         children svg = [chart_group other lib (svg_data w) (svg_width w) (svg_height w)] \<and>
         map datum (select_class ''arc'' svg) = map Some (pie lib (svg_data w)) \<and>
         (keeps_data lib \<longrightarrow>
            length (select_class ''arc'' svg) = length (svg_data w) \<and>
            length (select_tag ''path'' svg) = length (svg_data w) \<and>
            length (select_tag ''text'' svg) = length (svg_data w))"
    using drawChart_mounted [OF m, of other lib] drawn_children [of other lib w el] by blast
next
  show "length (labels (cfg_data (fst (getChartConfig rnd k inp)))) = length (data inp)"
    by (simp add: labels_config)
next
  obtain cfg k' where g: "getChartConfig rnd k inp = (cfg, k')" by force
  from config_shows(2) [OF g] g
  show "map (\<lambda>d. (length (ds_data d), length (backgroundColor d)))
     (datasets (cfg_data (fst (getChartConfig rnd k inp)))) =
     [(length (data inp), length (data inp))]"
    by (simp add: length_backgroundColors)
next
  assume c: "chart cw = Some c"
  obtain cfg k' where g: "getChartConfig rnd (draws cw) inp = (cfg, k')" by force
  from config_shows [OF g] g set_inputs_with_chart [OF c, of rnd inp]
  show "\<exists>cw' c'. canvas_step rnd (SetInputs inp) cw = Inr cw' \<and> chart cw' = Some c' \<and>
         inst_data c' = cfg_data (fst (getChartConfig rnd (draws cw) inp)) \<and>
         length (labels (inst_data c')) = length (data inp) \<and>
         length (rendered_points c') = length (data inp)"
    by (simp add: rendered_points_def)
qed

theorem redraw_segment_count_witness:
  "svg_chartContainer mounted = Some old_svg \<and> keeps_data stub_lib \<and>
   chart charted = Some a_chart \<and>
   (\<exists>svg. drawChart (\<lambda>q. []) stub_lib mounted =
            Inr (mounted \<lparr> svg_chartContainer := Some svg \<rparr>) \<and>
      length (select_class ''arc'' svg) = 3 \<and> length (select_tag ''path'' svg) = 3) \<and>
   length (labels (cfg_data (fst (getChartConfig (\<lambda>n. 0) 0 scenario)))) = 3 \<and>
   (\<exists>cw' c'. canvas_step (\<lambda>n. 0) (SetInputs small_and_large) charted = Inr cw' \<and>
      chart cw' = Some c' \<and> length (labels (inst_data c')) = 2 \<and>
      length (rendered_points c') = 2)"
proof -
  have m: "svg_chartContainer mounted = Some old_svg" by (simp add: mounted_def)
  have c: "chart charted = Some a_chart" by (simp add: charted_def)
  have n: "length (svg_data mounted) = 3" by (simp add: mounted_def)
  have s: "length (data scenario) = 3" by (simp add: scenario_def default_inputs_def)
  have l: "length (data small_and_large) = 2"
    by (simp add: small_and_large_def default_inputs_def)
  note t = redraw_segment_count [of mounted old_svg "\<lambda>q. []" stub_lib "\<lambda>n. 0" 0 scenario
      charted a_chart]
  note u = redraw_segment_count [of mounted old_svg "\<lambda>q. []" stub_lib "\<lambda>n. 0" 0
      small_and_large charted a_chart]
  from t m keeps_data_stub n have 1: "\<exists>svg. drawChart (\<lambda>q. []) stub_lib mounted =
            Inr (mounted \<lparr> svg_chartContainer := Some svg \<rparr>) \<and>
      length (select_class ''arc'' svg) = 3 \<and> length (select_tag ''path'' svg) = 3"
    by auto
  from t s have 2: "length (labels (cfg_data (fst (getChartConfig (\<lambda>n. 0) 0 scenario)))) = 3"
    by simp
  from u c l have 3: "\<exists>cw' c'. canvas_step (\<lambda>n. 0) (SetInputs small_and_large) charted = Inr cw' \<and>
      chart cw' = Some c' \<and> length (labels (inst_data c')) = 2 \<and>
      length (rendered_points c') = 2"
    by auto
  from m keeps_data_stub c 1 2 3 show ?thesis by blast
qed

subsection \<open>Clicks reach the slice\<close>

text \<open>
  C5. A click on a segment emits exactly one event, whose payload is the entry of the
  current data at the segment's index. SVG widget, drawn on a mounted surface whose
  \<open>svg\<close> element has no listener of its own, with a layout that keeps the data: a click
  on the path of group \<open>i\<close> and a click on its label each append the slice \<open>i\<close> of the
  data to the emitted events, and nothing else. Canvas widget, in any state reached from
  its construction: when the chart exists and the first point hit has an index \<open>j\<close> among
  the rendered points, the click appends the entry \<open>j\<close> of the current data.
\<close>

theorem click_emits_entry:
  "(keeps_data lib \<and> svg_chartContainer w = Some el \<and> listeners el = [] \<and>
    i < length (svg_data w) \<longrightarrow>
      (\<exists>w' svg. drawChart other lib w = Inr w' \<and> svg_data w' = svg_data w \<and>
         svg_chartContainer w' = Some svg \<and>
         map_option last (branch svg [0, i, 0]) = Some (select_tag ''path'' svg ! i) \<and>
         map_option last (branch svg [0, i, 1]) = Some (select_tag ''text'' svg ! i) \<and>
         svg_click [0, i, 0] w' = Inr (w' \<lparr> arcClick := arcClick w' @ [svg_data w ! i] \<rparr>) \<and>
         svg_click [0, i, 1] w' = Inr (w' \<lparr> arcClick := arcClick w' @ [svg_data w ! i] \<rparr>))) \<and>
   (\<exists>cw. canvas_run rnd es (constructed inp0) = Inr cw \<and>
      (\<forall>c j rest. chart cw = Some c \<and> j < length (rendered_points c) \<longrightarrow>
         canvas_step rnd (CanvasClick (j # rest)) cw =
           Inr (cw \<lparr> segmentClick := segmentClick cw @ [data (inputs cw) ! j] \<rparr>)))"
proof (intro conjI impI)
  assume h: "keeps_data lib \<and> svg_chartContainer w = Some el \<and> listeners el = [] \<and>
    i < length (svg_data w)"
  let ?w' = "w \<lparr> svg_chartContainer := Some (drawn other lib w el) \<rparr>"
  from h have n: "i < length (pie lib (svg_data w))" by (simp add: keeps_data_length)
  from h have d: "arc_data (pie lib (svg_data w) ! i) = svg_data w ! i"
    by (simp add: keeps_data_nth)
  have c: "svg_chartContainer ?w' = Some (drawn other lib w el)" by simp
  from h have l: "listeners el = []" by simp
  have "drawChart other lib w = Inr ?w'"
    using h by (simp add: drawChart_mounted)
  moreover have "map_option last (branch (drawn other lib w el) [0, i, 0]) =
      Some (select_tag ''path'' (drawn other lib w el) ! i)"
    using n by (simp add: branch_path select_paths length_joined del: branch.simps)
  moreover have "map_option last (branch (drawn other lib w el) [0, i, 1]) =
      Some (select_tag ''text'' (drawn other lib w el) ! i)"
    using n by (simp add: branch_text select_texts length_joined del: branch.simps)
  moreover have "svg_click [0, i, 0] ?w' = Inr (?w' \<lparr> arcClick := arcClick ?w' @ [svg_data w ! i] \<rparr>)"
    using click_on_drawn(1) [OF c l n] by (simp add: d)
  moreover have "svg_click [0, i, 1] ?w' = Inr (?w' \<lparr> arcClick := arcClick ?w' @ [svg_data w ! i] \<rparr>)"
    using click_on_drawn(2) [OF c l n] by (simp add: d)
  ultimately show "\<exists>w' svg. drawChart other lib w = Inr w' \<and> svg_data w' = svg_data w \<and>
         svg_chartContainer w' = Some svg \<and>
         map_option last (branch svg [0, i, 0]) = Some (select_tag ''path'' svg ! i) \<and>
         map_option last (branch svg [0, i, 1]) = Some (select_tag ''text'' svg ! i) \<and>
         svg_click [0, i, 0] w' = Inr (w' \<lparr> arcClick := arcClick w' @ [svg_data w ! i] \<rparr>) \<and>
         svg_click [0, i, 1] w' = Inr (w' \<lparr> arcClick := arcClick w' @ [svg_data w ! i] \<rparr>)"
    by (intro exI [of _ ?w'] exI [of _ "drawn other lib w el"]) simp
next
  obtain cw where r: "canvas_run rnd es (constructed inp0) = Inr cw"
    using canvas_run_total by blast
  have "canvas_inv cw"
    using canvas_inv_constructed r by (rule canvas_inv_run)
  with r show "\<exists>cw. canvas_run rnd es (constructed inp0) = Inr cw \<and>
      (\<forall>c j rest. chart cw = Some c \<and> j < length (rendered_points c) \<longrightarrow>
         canvas_step rnd (CanvasClick (j # rest)) cw =
           Inr (cw \<lparr> segmentClick := segmentClick cw @ [data (inputs cw) ! j] \<rparr>))"
    using click_in_range by blast
qed

theorem click_emits_entry_witness:
  "keeps_data stub_lib \<and> svg_chartContainer mounted = Some old_svg \<and>
   listeners old_svg = [] \<and> 1 < length (svg_data mounted) \<and>
   svg_data mounted ! 1 = \<lparr> label = ''B'', value_num = Fin 50, color = Some ''#0000ff'' \<rparr> \<and>
   (\<exists>w'. drawChart (\<lambda>q. []) stub_lib mounted = Inr w' \<and>
      svg_click [0, 1, 0] w' = Inr (w' \<lparr> arcClick := arcClick w' @ [svg_data mounted ! 1] \<rparr>) \<and>
      svg_click [0, 1, 1] w' = Inr (w' \<lparr> arcClick := arcClick w' @ [svg_data mounted ! 1] \<rparr>)) \<and>
   (\<exists>cw c. canvas_run (\<lambda>n. 0) session (constructed default_inputs) = Inr cw \<and>
      chart cw = Some c \<and> 1 < length (rendered_points c) \<and>
      data (inputs cw) ! 1 = mk_slice ''B'' 50 \<and>
      canvas_step (\<lambda>n. 0) (CanvasClick [1]) cw =
        Inr (cw \<lparr> segmentClick := segmentClick cw @ [data (inputs cw) ! 1] \<rparr>))"
proof -
  have h: "keeps_data stub_lib \<and> svg_chartContainer mounted = Some old_svg \<and>
      listeners old_svg = [] \<and> 1 < length (svg_data mounted)"
    by (simp add: keeps_data_stub mounted_def old_svg_def)
  have d: "svg_data mounted ! 1 = \<lparr> label = ''B'', value_num = Fin 50, color = Some ''#0000ff'' \<rparr>"
    by (simp add: mounted_def)
  note t = click_emits_entry [of stub_lib mounted old_svg 1 "\<lambda>q. []" "\<lambda>n. 0" session
      default_inputs]
  from t h have s: "\<exists>w'. drawChart (\<lambda>q. []) stub_lib mounted = Inr w' \<and>
      svg_click [0, 1, 0] w' = Inr (w' \<lparr> arcClick := arcClick w' @ [svg_data mounted ! 1] \<rparr>) \<and>
      svg_click [0, 1, 1] w' = Inr (w' \<lparr> arcClick := arcClick w' @ [svg_data mounted ! 1] \<rparr>)"
    by blast
  from session_end obtain cw c where
    e: "canvas_run (\<lambda>n. 0) session (constructed default_inputs) = Inr cw"
      "chart cw = Some c" "rendered_points c = [Fin 30, Fin 50, Fin 20]"
      "data (inputs cw) = data scenario"
    by blast
  from t obtain cw' where
    u: "canvas_run (\<lambda>n. 0) session (constructed default_inputs) = Inr cw'"
      "\<forall>c j rest. chart cw' = Some c \<and> j < length (rendered_points c) \<longrightarrow>
         canvas_step (\<lambda>n. 0) (CanvasClick (j # rest)) cw' =
           Inr (cw' \<lparr> segmentClick := segmentClick cw' @ [data (inputs cw') ! j] \<rparr>)"
    by blast
  from e(1) u(1) have w: "cw' = cw" by simp
  from e(3) have l: "1 < length (rendered_points c)" by simp
  from u(2) w e(2) l have k: "canvas_step (\<lambda>n. 0) (CanvasClick [1]) cw =
        Inr (cw \<lparr> segmentClick := segmentClick cw @ [data (inputs cw) ! 1] \<rparr>)"
    by blast
  from e(4) have b: "data (inputs cw) ! 1 = mk_slice ''B'' 50"
    by (simp add: scenario_def default_inputs_def)
  from h d s e(1) e(2) l b k show ?thesis by blast
qed

subsection \<open>One chart instance\<close>

text \<open>
  C6. The Canvas widget constructs at most one chart. Whatever the events since the
  construction of the component, they raise no error and lead to a state in which at most
  one chart has been constructed, and the chart the component holds, if any, is that
  first one. A step constructs a chart only if it is the \<open>afterNextRender\<close> callback,
  run for the first time, with the canvas present and its 2D context available. An input
  change is a no-op on the chart while there is none, and otherwise replaces the data and
  the options of the same chart and calls its \<open>update\<close> once.
\<close>

theorem one_chart_instance:
  "\<exists>w. canvas_run rnd es (constructed inp0) = Inr w \<and> created w \<le> 1 \<and>
     (\<forall>c. chart w = Some c \<longrightarrow> inst_id c = 0 \<and> created w = 1) \<and>
     (\<forall>e w'. canvas_step rnd e w = Inr w' \<and> created w' \<noteq> created w \<longrightarrow>
        e = AfterNextRender \<and> afterNextRender_pending w \<and> created w = 0 \<and> created w' = 1 \<and>
        (\<exists>cv. chartContainer w = Some cv \<and> has_2d_context cv) \<and> (\<exists>c. chart w' = Some c)) \<and>
     (\<forall>inp. chart w = None \<longrightarrow> canvas_step rnd (SetInputs inp) w = Inr (w \<lparr> inputs := inp \<rparr>)) \<and>
     (\<forall>inp c. chart w = Some c \<longrightarrow>
        canvas_step rnd (SetInputs inp) w =
           Inr (w \<lparr> inputs := inp,
                    chart := Some (c \<lparr> inst_data := cfg_data (fst (getChartConfig rnd (draws w) inp)),
                                       inst_options := cfg_options (fst (getChartConfig rnd (draws w) inp)),
                                       update_calls := Suc (update_calls c) \<rparr>),
                    draws := snd (getChartConfig rnd (draws w) inp) \<rparr>))"
proof -
  obtain w where r: "canvas_run rnd es (constructed inp0) = Inr w"
    using canvas_run_total by blast
  have i: "canvas_inv w"
    using canvas_inv_constructed r by (rule canvas_inv_run)
  have 1: "created w \<le> 1"
    using i by (simp add: canvas_inv_def)
  have 2: "\<forall>c. chart w = Some c \<longrightarrow> inst_id c = 0 \<and> created w = 1"
    using i by (auto simp: canvas_inv_def)
  have 3: "\<forall>e w'. canvas_step rnd e w = Inr w' \<and> created w' \<noteq> created w \<longrightarrow>
        e = AfterNextRender \<and> afterNextRender_pending w \<and> created w = 0 \<and> created w' = 1 \<and>
        (\<exists>cv. chartContainer w = Some cv \<and> has_2d_context cv) \<and> (\<exists>c. chart w' = Some c)"
    using created_changes [OF i] by blast
  show ?thesis
    using r 1 2 3 set_inputs_without_chart [of w rnd] set_inputs_with_chart [of w _ rnd]
    by blast
qed

theorem one_chart_instance_witness:
  "(\<exists>w c. canvas_run (\<lambda>n. 0) session (constructed default_inputs) = Inr w \<and>
      chart w = Some c \<and> inst_id c = 0 \<and> created w = 1 \<and> update_calls c = 1 \<and>
      (\<exists>w'. canvas_step (\<lambda>n. 0) (SetInputs all_zero) w = Inr w' \<and> created w' = 1 \<and>
         map_option inst_id (chart w') = Some 0 \<and> map_option update_calls (chart w') = Some 2)) \<and>
   chart (constructed default_inputs) = None \<and>
   canvas_step (\<lambda>n. 0) (SetInputs scenario) (constructed default_inputs) =
     Inr ((constructed default_inputs) \<lparr> inputs := scenario \<rparr>) \<and>
   canvas_run (\<lambda>n. 0) [ViewResolved (Some a_canvas)] (constructed default_inputs) = Inr viewed \<and>
   (\<exists>w'. canvas_step (\<lambda>n. 0) AfterNextRender viewed = Inr w' \<and>
      created w' \<noteq> created viewed \<and> created viewed = 0 \<and> created w' = 1 \<and>
      afterNextRender_pending viewed \<and>
      (\<exists>cv. chartContainer viewed = Some cv \<and> has_2d_context cv) \<and> (\<exists>c. chart w' = Some c))"
proof -
  from session_end obtain cw c where
    e: "canvas_run (\<lambda>n. 0) session (constructed default_inputs) = Inr cw"
      "chart cw = Some c" "created cw = 1" "update_calls c = 1"
    by blast
  from one_chart_instance [of "\<lambda>n. 0" session default_inputs] obtain w where
    t: "canvas_run (\<lambda>n. 0) session (constructed default_inputs) = Inr w"
      "\<forall>c. chart w = Some c \<longrightarrow> inst_id c = 0 \<and> created w = 1"
      "\<forall>inp c. chart w = Some c \<longrightarrow>
        canvas_step (\<lambda>n. 0) (SetInputs inp) w =
           Inr (w \<lparr> inputs := inp,
                    chart := Some (c \<lparr> inst_data := cfg_data (fst (getChartConfig (\<lambda>n. 0) (draws w) inp)),
                                       inst_options := cfg_options (fst (getChartConfig (\<lambda>n. 0) (draws w) inp)),
                                       update_calls := Suc (update_calls c) \<rparr>),
                    draws := snd (getChartConfig (\<lambda>n. 0) (draws w) inp) \<rparr>)"
    by blast
  from e(1) t(1) have w: "w = cw" by simp
  from t(2) e(2) w have i: "inst_id c = 0" by simp
  from t(3) e(2) w have
    "canvas_step (\<lambda>n. 0) (SetInputs all_zero) cw =
           Inr (cw \<lparr> inputs := all_zero,
                    chart := Some (c \<lparr> inst_data := cfg_data (fst (getChartConfig (\<lambda>n. 0) (draws cw) all_zero)),
                                       inst_options := cfg_options (fst (getChartConfig (\<lambda>n. 0) (draws cw) all_zero)),
                                       update_calls := Suc (update_calls c) \<rparr>),
                    draws := snd (getChartConfig (\<lambda>n. 0) (draws cw) all_zero) \<rparr>)"
    by blast
  with e i have "\<exists>w'. canvas_step (\<lambda>n. 0) (SetInputs all_zero) cw = Inr w' \<and> created w' = 1 \<and>
        map_option inst_id (chart w') = Some 0 \<and> map_option update_calls (chart w') = Some 2"
    by simp
  with e i have 1: "\<exists>w c. canvas_run (\<lambda>n. 0) session (constructed default_inputs) = Inr w \<and>
      chart w = Some c \<and> inst_id c = 0 \<and> created w = 1 \<and> update_calls c = 1 \<and>
      (\<exists>w'. canvas_step (\<lambda>n. 0) (SetInputs all_zero) w = Inr w' \<and> created w' = 1 \<and>
         map_option inst_id (chart w') = Some 0 \<and> map_option update_calls (chart w') = Some 2)"
    by blast
  have n: "chart (constructed default_inputs) = None" by (simp add: constructed_def)
  from one_chart_instance [of "\<lambda>n. 0" "[]" default_inputs] n
  have 2: "canvas_step (\<lambda>n. 0) (SetInputs scenario) (constructed default_inputs) =
     Inr ((constructed default_inputs) \<lparr> inputs := scenario \<rparr>)"
    by simp
  have v: "canvas_run (\<lambda>n. 0) [ViewResolved (Some a_canvas)] (constructed default_inputs) =
      Inr viewed"
    by (simp add: viewed_def)
  from one_chart_instance [of "\<lambda>n. 0" "[ViewResolved (Some a_canvas)]" default_inputs]
  have "\<forall>e w'. canvas_step (\<lambda>n. 0) e viewed = Inr w' \<and> created w' \<noteq> created viewed \<longrightarrow>
        e = AfterNextRender \<and> afterNextRender_pending viewed \<and> created viewed = 0 \<and>
        created w' = 1 \<and> (\<exists>cv. chartContainer viewed = Some cv \<and> has_2d_context cv) \<and>
        (\<exists>c. chart w' = Some c)"
    unfolding v by blast
  with viewed_init have 3: "\<exists>w'. canvas_step (\<lambda>n. 0) AfterNextRender viewed = Inr w' \<and>
      created w' \<noteq> created viewed \<and> created viewed = 0 \<and> created w' = 1 \<and>
      afterNextRender_pending viewed \<and>
      (\<exists>cv. chartContainer viewed = Some cv \<and> has_2d_context cv) \<and> (\<exists>c. chart w' = Some c)"
    by blast
  from 1 n 2 v 3 show ?thesis by blast
qed

subsection \<open>An unavailable surface\<close>

text \<open>
  C7. Neither widget raises an error when its surface is unavailable. SVG widget without
  its surface: the draw returns without error and changes nothing, also on an input
  change; once the surface is there, the next input change draws. Canvas widget, before
  its initialisation, with the canvas or its 2D context missing: the initialisation
  returns without error, creates no chart and subscribes to no click; and whatever events
  follow, also the canvas and its context turning up, none raises an error, no chart is
  ever created and no event is emitted.
\<close>

theorem unavailable_surface_is_silent:
  "(svg_chartContainer w = None \<longrightarrow>
      drawChart other lib w = Inr w \<and>
      svg_step other lib (SvgSetInputs ds wd ht) w =
        Inr (w \<lparr> svg_data := ds, svg_width := wd, svg_height := ht \<rparr>) \<and>
      (\<exists>svg. svg_step other lib (SvgSetInputs ds wd ht) (w \<lparr> svg_chartContainer := Some el \<rparr>) =
          Inr (w \<lparr> svg_data := ds, svg_width := wd, svg_height := ht,
                   svg_chartContainer := Some svg \<rparr>) \<and>
         children svg = [chart_group other lib ds wd ht])) \<and>
   (afterNextRender_pending cw \<and> chart cw = None \<and> \<not> click_subscribed cw \<and>
    (chartContainer cw = None \<or> (\<exists>cv. chartContainer cw = Some cv \<and> \<not> has_2d_context cv)) \<longrightarrow>
      canvas_step rnd AfterNextRender cw = Inr (cw \<lparr> afterNextRender_pending := False \<rparr>) \<and>
      (\<forall>es. \<exists>cw'. canvas_run rnd es (cw \<lparr> afterNextRender_pending := False \<rparr>) = Inr cw' \<and>
         chart cw' = None \<and> created cw' = created cw \<and> segmentClick cw' = segmentClick cw))"
proof (intro conjI impI allI)
  assume "svg_chartContainer w = None"
  then show "drawChart other lib w = Inr w" by (rule drawChart_unmounted)
next
  assume "svg_chartContainer w = None"
  then show "svg_step other lib (SvgSetInputs ds wd ht) w =
        Inr (w \<lparr> svg_data := ds, svg_width := wd, svg_height := ht \<rparr>)"
    by (simp add: drawChart_unmounted)
next
  let ?w = "w \<lparr> svg_data := ds, svg_width := wd, svg_height := ht, svg_chartContainer := Some el \<rparr>"
  have "svg_step other lib (SvgSetInputs ds wd ht) (w \<lparr> svg_chartContainer := Some el \<rparr>) =
          Inr (w \<lparr> svg_data := ds, svg_width := wd, svg_height := ht,
                   svg_chartContainer := Some (drawn other lib ?w el) \<rparr>)"
    by (simp add: drawChart_mounted drawn_def)
  moreover have "children (drawn other lib ?w el) = [chart_group other lib ds wd ht]"
    by (simp add: drawn_children)
  ultimately show "\<exists>svg. svg_step other lib (SvgSetInputs ds wd ht) (w \<lparr> svg_chartContainer := Some el \<rparr>) =
          Inr (w \<lparr> svg_data := ds, svg_width := wd, svg_height := ht,
                   svg_chartContainer := Some svg \<rparr>) \<and>
         children svg = [chart_group other lib ds wd ht]"
    by blast
next
  assume h: "afterNextRender_pending cw \<and> chart cw = None \<and> \<not> click_subscribed cw \<and>
    (chartContainer cw = None \<or> (\<exists>cv. chartContainer cw = Some cv \<and> \<not> has_2d_context cv))"
  then show "canvas_step rnd AfterNextRender cw = Inr (cw \<lparr> afterNextRender_pending := False \<rparr>)"
    using run_inert_after_failed_init(1) by blast
next
  fix es
  assume h: "afterNextRender_pending cw \<and> chart cw = None \<and> \<not> click_subscribed cw \<and>
    (chartContainer cw = None \<or> (\<exists>cv. chartContainer cw = Some cv \<and> \<not> has_2d_context cv))"
  then show "\<exists>cw'. canvas_run rnd es (cw \<lparr> afterNextRender_pending := False \<rparr>) = Inr cw' \<and>
         chart cw' = None \<and> created cw' = created cw \<and> segmentClick cw' = segmentClick cw"
    using run_inert_after_failed_init(2) by blast
qed

theorem unavailable_surface_is_silent_witness:
  "svg_chartContainer unmounted = None \<and>
   drawChart (\<lambda>q. []) stub_lib unmounted = Inr unmounted \<and>
   afterNextRender_pending (constructed scenario) \<and> chart (constructed scenario) = None \<and>
   \<not> click_subscribed (constructed scenario) \<and> chartContainer (constructed scenario) = None \<and>
   canvas_step (\<lambda>n. 0) AfterNextRender (constructed scenario) =
     Inr ((constructed scenario) \<lparr> afterNextRender_pending := False \<rparr>) \<and>
   (\<exists>cw'. canvas_run (\<lambda>n. 0)
             [ViewResolved (Some a_canvas), SetInputs all_zero, AfterNextRender, CanvasClick [0]]
             ((constructed scenario) \<lparr> afterNextRender_pending := False \<rparr>) = Inr cw' \<and>
      chart cw' = None \<and> created cw' = 0 \<and> segmentClick cw' = []) \<and>
   afterNextRender_pending contextless \<and> chart contextless = None \<and>
   \<not> click_subscribed contextless \<and> chartContainer contextless = Some no_context \<and>
   \<not> has_2d_context no_context \<and>
   canvas_step (\<lambda>n. 0) AfterNextRender contextless =
     Inr (contextless \<lparr> afterNextRender_pending := False \<rparr>)"
proof -
  have a: "svg_chartContainer unmounted = None" by (simp add: unmounted_def)
  have b: "afterNextRender_pending (constructed scenario) \<and> chart (constructed scenario) = None \<and>
     \<not> click_subscribed (constructed scenario) \<and> chartContainer (constructed scenario) = None"
    by (simp add: constructed_def)
  have c: "created (constructed scenario) = 0" "segmentClick (constructed scenario) = []"
    by (simp_all add: constructed_def)
  have d: "afterNextRender_pending contextless \<and> chart contextless = None \<and>
     \<not> click_subscribed contextless \<and> chartContainer contextless = Some no_context \<and>
     \<not> has_2d_context no_context"
    by (simp add: contextless_def constructed_def no_context_def)
  note t = unavailable_surface_is_silent [of unmounted "\<lambda>q. []" stub_lib "[]" "Fin 300" "Fin 300"
      old_svg "constructed scenario" "\<lambda>n. 0"]
  note u = unavailable_surface_is_silent [of unmounted "\<lambda>q. []" stub_lib "[]" "Fin 300" "Fin 300"
      old_svg contextless "\<lambda>n. 0"]
  from t a have 1: "drawChart (\<lambda>q. []) stub_lib unmounted = Inr unmounted" by blast
  from t b have 2: "canvas_step (\<lambda>n. 0) AfterNextRender (constructed scenario) =
     Inr ((constructed scenario) \<lparr> afterNextRender_pending := False \<rparr>)"
    by blast
  from t b have "\<forall>es. \<exists>cw'. canvas_run (\<lambda>n. 0) es
        ((constructed scenario) \<lparr> afterNextRender_pending := False \<rparr>) = Inr cw' \<and>
      chart cw' = None \<and> created cw' = created (constructed scenario) \<and>
      segmentClick cw' = segmentClick (constructed scenario)"
    by blast
  then have 3: "\<exists>cw'. canvas_run (\<lambda>n. 0)
             [ViewResolved (Some a_canvas), SetInputs all_zero, AfterNextRender, CanvasClick [0]]
             ((constructed scenario) \<lparr> afterNextRender_pending := False \<rparr>) = Inr cw' \<and>
      chart cw' = None \<and> created cw' = 0 \<and> segmentClick cw' = []"
    unfolding c by blast
  from u d have 4: "canvas_step (\<lambda>n. 0) AfterNextRender contextless =
     Inr (contextless \<lparr> afterNextRender_pending := False \<rparr>)"
    by blast
  from a b d 1 2 3 4 show ?thesis by blast
qed

subsection \<open>Teardown\<close>

text \<open>
  C8. Teardown is safe on every path. Canvas widget: with no chart, \<open>ngOnDestroy\<close>
  returns without error and changes nothing; with a chart, it destroys that chart and
  forgets it; the destruction of the component also ends the click subscription. SVG
  widget: without the surface reference, \<open>ngOnDestroy\<close> returns without error and
  changes nothing; with it, the \<open>svg\<close> element is left without descendants.
\<close>

theorem teardown_is_safe:
  "(chart cw = None \<longrightarrow>
      ngOnDestroy cw = Inr cw \<and>
      canvas_step rnd Destroy cw = Inr (cw \<lparr> click_subscribed := False \<rparr>)) \<and>
   (chart cw = Some c \<longrightarrow>
      ngOnDestroy cw = Inr (cw \<lparr> destroyed := destroyed cw @ [inst_id c], chart := None \<rparr>) \<and>
      canvas_step rnd Destroy cw =
        Inr (cw \<lparr> destroyed := destroyed cw @ [inst_id c], chart := None,
                  click_subscribed := False \<rparr>)) \<and>
   (svg_chartContainer w = None \<longrightarrow> svg_ngOnDestroy w = Inr w) \<and>
   (svg_chartContainer w = Some el \<longrightarrow>
      svg_ngOnDestroy w = Inr (w \<lparr> svg_chartContainer := Some (remove_all el) \<rparr>) \<and>
      descendants (remove_all el) = [])"
  by (simp add: ngOnDestroy_def svg_ngOnDestroy_def nativeElement_def remove_all_def)

theorem teardown_is_safe_witness:
  "chart (constructed scenario) = None \<and>
   ngOnDestroy (constructed scenario) = Inr (constructed scenario) \<and>
   chart charted = Some a_chart \<and>
   ngOnDestroy charted = Inr (charted \<lparr> destroyed := destroyed charted @ [inst_id a_chart],
                                         chart := None \<rparr>) \<and>
   svg_chartContainer unmounted = None \<and> svg_ngOnDestroy unmounted = Inr unmounted \<and>
   svg_chartContainer mounted = Some old_svg \<and>
   svg_ngOnDestroy mounted = Inr (mounted \<lparr> svg_chartContainer := Some (remove_all old_svg) \<rparr>) \<and>
   descendants (remove_all old_svg) = []"
proof -
  have a: "chart (constructed scenario) = None" by (simp add: constructed_def)
  have b: "chart charted = Some a_chart" by (simp add: charted_def)
  have c: "svg_chartContainer unmounted = None" by (simp add: unmounted_def)
  have d: "svg_chartContainer mounted = Some old_svg" by (simp add: mounted_def)
  note t = teardown_is_safe [of "constructed scenario" "\<lambda>n. 0" a_chart unmounted old_svg]
  note u = teardown_is_safe [of charted "\<lambda>n. 0" a_chart mounted old_svg]
  from t a c u b d show ?thesis by blast
qed

subsection \<open>Redrawing twice\<close>

text \<open>
  C9, as the code has it. The redraw of the SVG widget is idempotent and deterministic.
  On a mounted surface the draw succeeds, and drawing again from the state it leaves
  gives that same state; two widgets with the same data, width and height get the same
  drawing, whatever their surfaces held before. When the layout keeps the data, the
  drawing has one group for each slice, the labels are the labels of the slices in
  order, and the fill of path \<open>i\<close> is the colour of slice \<open>i\<close> when it has one. When the
  slice has none, the fill is \<open>color(i.toString())\<close> of a scale that is asked for the
  uncoloured slices only: with the ordinal scale of the library over its palette of ten
  colours, it is the palette colour at the number of uncoloured slices before \<open>i\<close>,
  modulo ten. That is the palette colour at the positional index \<open>i\<close>, modulo ten, when
  no slice before \<open>i\<close> has a colour of its own.
\<close>

theorem redraw_idempotent:
  assumes "svg_chartContainer w = Some el"
  shows "\<exists>w' svg. drawChart other lib w = Inr w' \<and> svg_chartContainer w' = Some svg \<and>
     drawChart other lib w' = Inr w' \<and>
     (\<forall>w2 el2. svg_chartContainer w2 = Some el2 \<and> svg_data w2 = svg_data w \<and>
        svg_width w2 = svg_width w \<and> svg_height w2 = svg_height w \<longrightarrow>
        (\<exists>w2' svg2. drawChart other lib w2 = Inr w2' \<and> svg_chartContainer w2' = Some svg2 \<and>
           children svg2 = children svg)) \<and>
     (keeps_data lib \<longrightarrow>
        length (select_class ''arc'' svg) = length (svg_data w) \<and>
        map text_content (select_tag ''text'' svg) = map label (svg_data w) \<and>
        (\<forall>i < length (svg_data w). \<forall>c. color (svg_data w ! i) = Some c \<longrightarrow>
           map_of (attrs (select_tag ''path'' svg ! i)) ''fill'' = Some c)) \<and>
     (keeps_data lib \<and> category10_scale lib \<longrightarrow>
        (\<forall>i < length (svg_data w). color (svg_data w ! i) = None \<longrightarrow>
           map_of (attrs (select_tag ''path'' svg ! i)) ''fill'' =
             Some (schemeCategory10 ! (uncoloured_before (svg_data w) i mod 10)) \<and>
           ((\<forall>j < i. color (svg_data w ! j) = None) \<longrightarrow>
              map_of (attrs (select_tag ''path'' svg ! i)) ''fill'' =
                Some (schemeCategory10 ! (i mod 10)))))"
proof -
  let ?svg = "drawn other lib w el"
  let ?w' = "w \<lparr> svg_chartContainer := Some ?svg \<rparr>"
  have 1: "drawChart other lib w = Inr ?w'"
    using assms by (rule drawChart_mounted)
  have 2: "drawChart other lib ?w' = Inr ?w'"
    using drawChart_mounted [of ?w' ?svg other lib] by (simp add: drawn_again)
  have 3: "\<forall>w2 el2. svg_chartContainer w2 = Some el2 \<and> svg_data w2 = svg_data w \<and>
        svg_width w2 = svg_width w \<and> svg_height w2 = svg_height w \<longrightarrow>
        (\<exists>w2' svg2. drawChart other lib w2 = Inr w2' \<and> svg_chartContainer w2' = Some svg2 \<and>
           children svg2 = children ?svg)"
  proof (intro allI impI)
    fix w2 :: svg_widget and el2 :: element
    assume h: "svg_chartContainer w2 = Some el2 \<and> svg_data w2 = svg_data w \<and>
        svg_width w2 = svg_width w \<and> svg_height w2 = svg_height w"
    then have "drawChart other lib w2 = Inr (w2 \<lparr> svg_chartContainer := Some (drawn other lib w2 el2) \<rparr>)"
      by (simp add: drawChart_mounted)
    moreover from h have "children (drawn other lib w2 el2) = children ?svg"
      by (simp add: drawn_children)
    ultimately show "\<exists>w2' svg2. drawChart other lib w2 = Inr w2' \<and>
        svg_chartContainer w2' = Some svg2 \<and> children svg2 = children ?svg"
      by simp
  qed
  have 4: "keeps_data lib \<longrightarrow>
        length (select_class ''arc'' ?svg) = length (svg_data w) \<and>
        map text_content (select_tag ''text'' ?svg) = map label (svg_data w) \<and>
        (\<forall>i < length (svg_data w). \<forall>c. color (svg_data w ! i) = Some c \<longrightarrow>
           map_of (attrs (select_tag ''path'' ?svg ! i)) ''fill'' = Some c)"
  proof (intro impI conjI allI)
    assume k: "keeps_data lib"
    then show "length (select_class ''arc'' ?svg) = length (svg_data w)"
      by (simp add: select_arcs length_joined keeps_data_length)
    have "map text_content (select_tag ''text'' ?svg) = map label (map arc_data (map fst (joined lib (svg_data w))))"
      by (simp add: select_texts text_of_text_element comp_def)
    also have "\<dots> = map label (svg_data w)"
      using k by (simp only: map_fst_joined keeps_data_def)
    finally show "map text_content (select_tag ''text'' ?svg) = map label (svg_data w)" .
    fix i c
    assume "i < length (svg_data w)" and "color (svg_data w ! i) = Some c"
    with k show "map_of (attrs (select_tag ''path'' ?svg ! i)) ''fill'' = Some c"
      by (simp add: drawn_fill)
  qed
  have 5: "keeps_data lib \<and> category10_scale lib \<longrightarrow>
        (\<forall>i < length (svg_data w). color (svg_data w ! i) = None \<longrightarrow>
           map_of (attrs (select_tag ''path'' ?svg ! i)) ''fill'' =
             Some (schemeCategory10 ! (uncoloured_before (svg_data w) i mod 10)) \<and>
           ((\<forall>j < i. color (svg_data w ! j) = None) \<longrightarrow>
              map_of (attrs (select_tag ''path'' ?svg ! i)) ''fill'' =
                Some (schemeCategory10 ! (i mod 10))))"
  proof (intro impI allI)
    fix i
    assume k: "keeps_data lib \<and> category10_scale lib"
      and i: "i < length (svg_data w)" and n: "color (svg_data w ! i) = None"
    from k i n have f: "map_of (attrs (select_tag ''path'' ?svg ! i)) ''fill'' =
             Some (schemeCategory10 ! (uncoloured_before (svg_data w) i mod 10))"
      by (simp add: drawn_fill_ordinal)
    moreover have "map_of (attrs (select_tag ''path'' ?svg ! i)) ''fill'' =
                Some (schemeCategory10 ! (i mod 10))"
      if "\<forall>j < i. color (svg_data w ! j) = None"
      using that i f by (simp add: uncoloured_before_all)
    ultimately show "map_of (attrs (select_tag ''path'' ?svg ! i)) ''fill'' =
             Some (schemeCategory10 ! (uncoloured_before (svg_data w) i mod 10)) \<and>
           ((\<forall>j < i. color (svg_data w ! j) = None) \<longrightarrow>
              map_of (attrs (select_tag ''path'' ?svg ! i)) ''fill'' =
                Some (schemeCategory10 ! (i mod 10)))"
      by blast
  qed
  have 0: "svg_chartContainer ?w' = Some ?svg" by simp
  from 1 0 2 3 4 5 show ?thesis
    by - (rule exI [of _ ?w'], rule exI [of _ ?svg], intro conjI, assumption+)
qed

text \<open>The widget \<open>mounted\<close> has the slices A, B and C, of which B has the colour
  \<open>#0000ff\<close>: A gets the first colour of the palette and C the second. The widget \<open>plain\<close>
  has the same slices without a colour: they get the first three colours.\<close>

theorem redraw_idempotent_witness:
  "svg_chartContainer mounted = Some old_svg \<and> keeps_data d3_stub \<and>
   category10_scale d3_stub \<and>
   svg_chartContainer cleared = Some (remove_all old_svg) \<and>
   svg_data cleared = svg_data mounted \<and> svg_width cleared = svg_width mounted \<and>
   svg_height cleared = svg_height mounted \<and>
   (\<exists>w' svg. drawChart (\<lambda>q. []) d3_stub mounted = Inr w' \<and>
      svg_chartContainer w' = Some svg \<and> drawChart (\<lambda>q. []) d3_stub w' = Inr w' \<and>
      (\<exists>w2' svg2. drawChart (\<lambda>q. []) d3_stub cleared = Inr w2' \<and>
         svg_chartContainer w2' = Some svg2 \<and> children svg2 = children svg) \<and>
      length (select_class ''arc'' svg) = 3 \<and>
      map text_content (select_tag ''text'' svg) = [''A'', ''B'', ''C''] \<and>
      map_of (attrs (select_tag ''path'' svg ! 0)) ''fill'' = Some ''#1f77b4'' \<and>
      map_of (attrs (select_tag ''path'' svg ! 1)) ''fill'' = Some ''#0000ff'' \<and>
      map_of (attrs (select_tag ''path'' svg ! 2)) ''fill'' = Some ''#ff7f0e'') \<and>
   svg_chartContainer plain = Some old_svg \<and>
   (\<exists>w' svg. drawChart (\<lambda>q. []) d3_stub plain = Inr w' \<and>
      svg_chartContainer w' = Some svg \<and>
      map_of (attrs (select_tag ''path'' svg ! 0)) ''fill'' = Some ''#1f77b4'' \<and>
      map_of (attrs (select_tag ''path'' svg ! 1)) ''fill'' = Some ''#ff7f0e'' \<and>
      map_of (attrs (select_tag ''path'' svg ! 2)) ''fill'' = Some ''#2ca02c'')"
proof -
  have m: "svg_chartContainer mounted = Some old_svg" by (simp add: mounted_def)
  have p: "svg_chartContainer plain = Some old_svg" by (simp add: plain_def mounted_def)
  have c: "svg_chartContainer cleared = Some (remove_all old_svg) \<and>
     svg_data cleared = svg_data mounted \<and> svg_width cleared = svg_width mounted \<and>
     svg_height cleared = svg_height mounted"
    by (simp add: cleared_def)
  note k = keeps_data_d3_stub category10_d3_stub
  have dm: "length (svg_data mounted) = 3" "map label (svg_data mounted) = [''A'', ''B'', ''C'']"
    "color (svg_data mounted ! 0) = None" "color (svg_data mounted ! 1) = Some ''#0000ff''"
    "color (svg_data mounted ! 2) = None"
    "uncoloured_before (svg_data mounted) 0 = 0" "uncoloured_before (svg_data mounted) 2 = 1"
    by (simp_all add: mounted_def mk_slice_def uncoloured_before_def)
  have dp: "length (svg_data plain) = 3"
    "\<forall>j < 3. color (svg_data plain ! j) = None"
    by (simp_all add: plain_def sample_defs all_less_3)
  have pal: "schemeCategory10 ! 0 = ''#1f77b4''" "schemeCategory10 ! 1 = ''#ff7f0e''"
    "schemeCategory10 ! 2 = ''#2ca02c''"
    by (simp_all add: schemeCategory10_def)
  from redraw_idempotent [OF m, of "\<lambda>q. []" d3_stub] k
  obtain w' svg where
    t: "drawChart (\<lambda>q. []) d3_stub mounted = Inr w'" "svg_chartContainer w' = Some svg"
      "drawChart (\<lambda>q. []) d3_stub w' = Inr w'"
      "\<forall>w2 el2. svg_chartContainer w2 = Some el2 \<and> svg_data w2 = svg_data mounted \<and>
        svg_width w2 = svg_width mounted \<and> svg_height w2 = svg_height mounted \<longrightarrow>
        (\<exists>w2' svg2. drawChart (\<lambda>q. []) d3_stub w2 = Inr w2' \<and>
           svg_chartContainer w2' = Some svg2 \<and> children svg2 = children svg)"
      "length (select_class ''arc'' svg) = length (svg_data mounted)"
      "map text_content (select_tag ''text'' svg) = map label (svg_data mounted)"
      "\<forall>i < length (svg_data mounted). \<forall>c. color (svg_data mounted ! i) = Some c \<longrightarrow>
           map_of (attrs (select_tag ''path'' svg ! i)) ''fill'' = Some c"
      "\<forall>i < length (svg_data mounted). color (svg_data mounted ! i) = None \<longrightarrow>
           map_of (attrs (select_tag ''path'' svg ! i)) ''fill'' =
             Some (schemeCategory10 ! (uncoloured_before (svg_data mounted) i mod 10)) \<and>
           ((\<forall>j < i. color (svg_data mounted ! j) = None) \<longrightarrow>
              map_of (attrs (select_tag ''path'' svg ! i)) ''fill'' =
                Some (schemeCategory10 ! (i mod 10)))"
    by blast
  from t(4) c have 0: "\<exists>w2' svg2. drawChart (\<lambda>q. []) d3_stub cleared = Inr w2' \<and>
         svg_chartContainer w2' = Some svg2 \<and> children svg2 = children svg"
    by blast
  from t(5) have 1: "length (select_class ''arc'' svg) = 3" by (simp add: dm)
  from t(6) have 2: "map text_content (select_tag ''text'' svg) = [''A'', ''B'', ''C'']"
    by (simp add: dm)
  from t(8) dm(1,3) have "map_of (attrs (select_tag ''path'' svg ! 0)) ''fill'' =
      Some (schemeCategory10 ! (uncoloured_before (svg_data mounted) 0 mod 10))"
    by simp
  then have 3: "map_of (attrs (select_tag ''path'' svg ! 0)) ''fill'' = Some ''#1f77b4''"
    by (simp add: dm pal)
  from t(7) dm(1,4) have 4: "map_of (attrs (select_tag ''path'' svg ! 1)) ''fill'' = Some ''#0000ff''"
    by (simp del: One_nat_def)
  from t(8) dm(1,5) have "map_of (attrs (select_tag ''path'' svg ! 2)) ''fill'' =
      Some (schemeCategory10 ! (uncoloured_before (svg_data mounted) 2 mod 10))"
    by simp
  then have 5: "map_of (attrs (select_tag ''path'' svg ! 2)) ''fill'' = Some ''#ff7f0e''"
    by (simp add: dm pal del: One_nat_def)
  from t(1-3) 0 1 2 3 4 5
  have a: "\<exists>w' svg. drawChart (\<lambda>q. []) d3_stub mounted = Inr w' \<and>
      svg_chartContainer w' = Some svg \<and> drawChart (\<lambda>q. []) d3_stub w' = Inr w' \<and>
      (\<exists>w2' svg2. drawChart (\<lambda>q. []) d3_stub cleared = Inr w2' \<and>
         svg_chartContainer w2' = Some svg2 \<and> children svg2 = children svg) \<and>
      length (select_class ''arc'' svg) = 3 \<and>
      map text_content (select_tag ''text'' svg) = [''A'', ''B'', ''C''] \<and>
      map_of (attrs (select_tag ''path'' svg ! 0)) ''fill'' = Some ''#1f77b4'' \<and>
      map_of (attrs (select_tag ''path'' svg ! 1)) ''fill'' = Some ''#0000ff'' \<and>
      map_of (attrs (select_tag ''path'' svg ! 2)) ''fill'' = Some ''#ff7f0e''"
    by - (rule exI [of _ w'], rule exI [of _ svg], intro conjI, assumption+)
  from redraw_idempotent [OF p, of "\<lambda>q. []" d3_stub] k
  obtain v' svg' where
    u: "drawChart (\<lambda>q. []) d3_stub plain = Inr v'" "svg_chartContainer v' = Some svg'"
      "\<forall>i < length (svg_data plain). color (svg_data plain ! i) = None \<longrightarrow>
           map_of (attrs (select_tag ''path'' svg' ! i)) ''fill'' =
             Some (schemeCategory10 ! (uncoloured_before (svg_data plain) i mod 10)) \<and>
           ((\<forall>j < i. color (svg_data plain ! j) = None) \<longrightarrow>
              map_of (attrs (select_tag ''path'' svg' ! i)) ''fill'' =
                Some (schemeCategory10 ! (i mod 10)))"
    by blast
  have q: "map_of (attrs (select_tag ''path'' svg' ! i)) ''fill'' =
      Some (schemeCategory10 ! (i mod 10))" if "i < 3" for i
  proof -
    from that dp have "i < length (svg_data plain)" "color (svg_data plain ! i) = None"
      "\<forall>j < i. color (svg_data plain ! j) = None"
      by simp_all
    with u(3) show ?thesis by blast
  qed
  from q [of 0] q [of 1] q [of 2]
  have "map_of (attrs (select_tag ''path'' svg' ! 0)) ''fill'' = Some ''#1f77b4''"
    "map_of (attrs (select_tag ''path'' svg' ! 1)) ''fill'' = Some ''#ff7f0e''"
    "map_of (attrs (select_tag ''path'' svg' ! 2)) ''fill'' = Some ''#2ca02c''"
    by (simp_all add: pal del: One_nat_def)
  with u(1,2)
  have b: "\<exists>w' svg. drawChart (\<lambda>q. []) d3_stub plain = Inr w' \<and>
      svg_chartContainer w' = Some svg \<and>
      map_of (attrs (select_tag ''path'' svg ! 0)) ''fill'' = Some ''#1f77b4'' \<and>
      map_of (attrs (select_tag ''path'' svg ! 1)) ''fill'' = Some ''#ff7f0e'' \<and>
      map_of (attrs (select_tag ''path'' svg ! 2)) ''fill'' = Some ''#2ca02c''"
    by - (rule exI [of _ v'], rule exI [of _ svg'], intro conjI, assumption+)
  from m k c a p b show ?thesis
    by - (intro conjI, (assumption | erule conjunct1 | simp)+)
qed

text \<open>
  The claim as written gives an uncoloured slice the palette colour at its positional
  index. In \<open>mounted\<close> the slice C, at index 2, has no colour and comes after one
  uncoloured slice and one coloured slice: the scale is asked for the key \<open>0\<close> and then
  for the key \<open>2\<close>, which is its second key, and the fill of C is the second colour of
  the palette, \<open>#ff7f0e\<close>, not the third, \<open>#2ca02c\<close>.
\<close>

theorem redraw_fill_counterexample:
  "drawChart (\<lambda>q. []) d3_stub mounted =
     Inr (mounted \<lparr> svg_chartContainer := Some (drawn (\<lambda>q. []) d3_stub mounted old_svg) \<rparr>) \<and>
   color (svg_data mounted ! 2) = None \<and>
   map_of (attrs (select_tag ''path'' (drawn (\<lambda>q. []) d3_stub mounted old_svg) ! 2)) ''fill'' =
     Some ''#ff7f0e'' \<and>
   schemeCategory10 ! 1 = ''#ff7f0e'' \<and>
   schemeCategory10 ! 2 = ''#2ca02c''"
proof -
  have m: "svg_chartContainer mounted = Some old_svg" by (simp add: mounted_def)
  have d: "2 < length (svg_data mounted)" "color (svg_data mounted ! 2) = None"
    "uncoloured_before (svg_data mounted) 2 = 1"
    by (simp_all add: mounted_def mk_slice_def uncoloured_before_def)
  have pal: "schemeCategory10 ! 1 = ''#ff7f0e''" "schemeCategory10 ! 2 = ''#2ca02c''"
    by (simp_all add: schemeCategory10_def)
  from drawn_fill_ordinal [OF keeps_data_d3_stub category10_d3_stub d(1), of "\<lambda>q. []" old_svg]
  have "map_of (attrs (select_tag ''path'' (drawn (\<lambda>q. []) d3_stub mounted old_svg) ! 2)) ''fill'' =
     Some ''#ff7f0e''"
    by (simp add: d pal del: One_nat_def)
  with drawChart_mounted [OF m, of "\<lambda>q. []" d3_stub] d(2) pal show ?thesis by simp
qed

end
